theory Spec2Isabelle
  imports Main "HOL-Library.Word"
begin

section \<open>The D-Bus interface of a unit (src/core/dbus-unit.c)\<close>

text \<open>
  A shallow embedding of the unit object's bus interface: property getters, the job
  dispatcher, the cgroup process walker, process attachment, the change/removed signals
  and the two-pass property writer. Functions of other files of the repository that the
  code calls are parameters, collected in the record \<open>env\<close>.

  Two kinds of failure are left out, except where a collaborator reports them: a failed
  memory allocation (\<open>-ENOMEM\<close>) and a failure of the bus library to build or send a
  reply message. A message is taken to have the signature of its method, so that reading
  its parameters does not fail; only the value of a property, which is a variant, may have
  another type than the one its handler reads.
\<close>

subsection \<open>Errors\<close>

text \<open>
  A function of the source returns a negative value on failure and may fill in an
  \<open>sd_bus_error\<close>. \<open>sd_bus_error_setf (error, name, fmt, ...)\<close> is \<open>BusError name fmt args\<close>,
  \<open>sd_bus_error_set_errnof (error, r, fmt)\<close> is \<open>BusErrno r fmt\<close>, and a plain
  \<open>return r\<close> with \<open>r < 0\<close> is \<open>Errno r\<close>.
\<close>

datatype bus_error_name =
    SD_BUS_ERROR_INVALID_ARGS
  | SD_BUS_ERROR_ACCESS_DENIED
  | SD_BUS_ERROR_PROPERTY_READ_ONLY
  | BUS_ERROR_NO_SUCH_UNIT
  | BUS_ERROR_ONLY_BY_DEPENDENCY
  | BUS_ERROR_UNIT_MASKED

datatype fmt_arg = ArgStr string | ArgInt int

datatype error =
    BusError bus_error_name string "fmt_arg list"
  | BusErrno int string
  | Errno int

text \<open>The error numbers of \<open>errno.h\<close> (Linux) that the file names.\<close>

definition ENOENT :: int where "ENOENT = 2"
definition ESRCH :: int where "ESRCH = 3"
definition ENXIO :: int where "ENXIO = 6"
definition ENOMEM :: int where "ENOMEM = 12"

subsection \<open>Data model\<close>

text \<open>
  Modelled from the spec: the enumerations of unit.h, job.h and condition.h are not in the
  excerpt. The load states are those of the spec's data model; of the other enumerations
  the values are the ones this file names (\<open>JOB_START\<close>, \<open>UNIT_SLICE\<close>,
  \<open>UNIT_REQUIRES\<close>, ...) and the ones of the spec's lists of job types and unit kinds.
  A \<open>pid_t\<close> is a 32-bit word read as a signed number (\<open>sint\<close>), a \<open>uid_t\<close> a 32-bit
  word.
\<close>

type_synonym pid_t = "32 word"
type_synonym uid_t = "32 word"
type_synonym usec_t = "64 word"

datatype UnitLoadState =
    UNIT_STUB | UNIT_LOADED | UNIT_NOT_FOUND | UNIT_BAD_SETTING | UNIT_ERROR
  | UNIT_MERGED | UNIT_MASKED

datatype UnitActiveState =
    UNIT_ACTIVE | UNIT_RELOADING | UNIT_INACTIVE | UNIT_FAILED
  | UNIT_ACTIVATING | UNIT_DEACTIVATING

datatype UnitType =
    UNIT_SERVICE | UNIT_SOCKET | UNIT_TARGET | UNIT_DEVICE | UNIT_MOUNT | UNIT_AUTOMOUNT
  | UNIT_SWAP | UNIT_TIMER | UNIT_PATH | UNIT_SLICE | UNIT_SCOPE

datatype JobType =
    JOB_START | JOB_VERIFY_ACTIVE | JOB_STOP | JOB_RELOAD | JOB_RESTART
  | JOB_TRY_RESTART | JOB_TRY_RELOAD | JOB_RELOAD_OR_START | JOB_NOP

text \<open>
  \<open>UnitWriteFlags\<close> is a bit mask; it is modelled as the set of its bits, so that
  \<open>flags & ~(UNIT_RUNTIME|UNIT_PERSISTENT)\<close> is a set difference and \<open>flags|UNIT_PRIVATE\<close>
  an insertion.
\<close>

datatype UnitWriteFlag =
    UNIT_RUNTIME | UNIT_PERSISTENT | UNIT_ESCAPE_SPECIFIERS | UNIT_ESCAPE_C | UNIT_PRIVATE

type_synonym UnitWriteFlags = "UnitWriteFlag set"

datatype ConditionResult = CONDITION_UNTESTED | CONDITION_SUCCEEDED | CONDITION_FAILED

text \<open>
  \<open>ConditionType\<close> is a C enum, declared in condition.h; its values are kept as the
  integers they are, a negative one being the invalid type that the parsers return.
\<close>

type_synonym ConditionType = int

record Condition =
  cond_type :: ConditionType
  trigger :: bool
  negate :: bool
  parameter :: "string option"
  result :: ConditionResult

record Job =
  job_id :: "32 word"

text \<open>
  The fields of \<open>Unit\<close> that this file reads or writes. \<open>settings\<close> is the list of the
  setting lines written by \<open>unit_write_settingf\<close> (flags, name, format and arguments), \<open>attempts\<close> the bus signals that
  the senders of this file were called to send for the unit so far, oldest first, and
  \<open>signals\<close> those of them that went out on the bus of an observer.
\<close>

datatype signal = UnitNew | PropertiesChanged string | UnitRemoved

record Unit =
  unit_id :: "string option"
  unit_type :: UnitType
  load_state :: UnitLoadState
  transient :: bool
  job :: "Job option"
  cgroup_path :: "string option"
  ref_uid :: uid_t
  in_dbus_queue :: bool
  sent_dbus_new_signal :: bool
  attempts :: "signal list"
  signals :: "signal list"
  description :: "string option"
  source_path :: "string option"
  stop_when_unneeded :: bool
  refuse_manual_start :: bool
  refuse_manual_stop :: bool
  allow_isolate :: bool
  default_dependencies :: bool
  ignore_on_isolate :: bool
  on_failure_job_mode :: int
  job_timeout :: usec_t
  job_running_timeout :: usec_t
  job_running_timeout_set :: bool
  job_timeout_action :: int
  job_timeout_reboot_arg :: "string option"
  start_limit_interval :: usec_t
  start_limit_burst :: "32 word"
  start_limit_action :: int
  failure_action :: int
  success_action :: int
  reboot_arg :: "string option"
  collect_mode :: int
  conditions :: "Condition list"
  asserts :: "Condition list"
  documentation :: "string list"
  bus_track_add :: bool
  settings :: "(UnitWriteFlags \<times> string \<times> string \<times> fmt_arg list) list"

datatype UnitDependency =
    UNIT_REQUIRES | UNIT_REQUISITE | UNIT_WANTS | UNIT_BINDS_TO | UNIT_PART_OF
  | UNIT_REQUIRED_BY | UNIT_REQUISITE_OF | UNIT_WANTED_BY | UNIT_BOUND_BY | UNIT_CONSISTS_OF
  | UNIT_CONFLICTS | UNIT_CONFLICTED_BY | UNIT_BEFORE | UNIT_AFTER | UNIT_ON_FAILURE
  | UNIT_TRIGGERS | UNIT_TRIGGERED_BY | UNIT_PROPAGATES_RELOAD_TO
  | UNIT_RELOAD_PROPAGATED_FROM | UNIT_JOINS_NAMESPACE_OF

datatype UnitNameFlag = UNIT_NAME_PLAIN | UNIT_NAME_INSTANCE | UNIT_NAME_TEMPLATE

text \<open>
  The value of one property of a \<open>SetProperties\<close> message, by its bus type: \<open>b\<close>, \<open>s\<close>,
  \<open>u\<close>, \<open>t\<close>, \<open>as\<close> and \<open>a(sbbs)\<close>.
\<close>

datatype bus_value =
    VBool bool
  | VString string
  | VUint32 "32 word"
  | VUint64 "64 word"
  | VStrv "string list"
  | VConditions "(string \<times> bool \<times> bool \<times> string) list"

text \<open>
  The result of a property handler: an error, 0 when the handler does not know the
  property, 1 when it has handled it; and the unit as the handler leaves it.
\<close>

type_synonym handled = "(error + nat) \<times> Unit"

record UnitVTable =
  bus_set_property ::
    "(Unit \<Rightarrow> string \<Rightarrow> bus_value \<Rightarrow> UnitWriteFlags \<Rightarrow> handled) option"
  bus_commit_properties :: "(Unit \<Rightarrow> Unit) option"

subsection \<open>Collaborators\<close>

text \<open>
  The control group hierarchy as the walker sees it: for one group, the return value of
  \<open>cg_enumerate_processes\<close>, the PIDs that \<open>cg_read_pid\<close> then yields and the value it
  returns after them (0 at the end of the file, negative on a read error), and the same
  three for \<open>cg_enumerate_subgroups\<close> and \<open>cg_read_subgroup\<close>, each subgroup with its
  name and its own hierarchy.
\<close>

datatype cgroup =
  CGroup (enumerate_processes_r: int) (pids_read: "pid_t list") (read_pid_end: int)
         (enumerate_subgroups_r: int) (subgroups_read: "(string \<times> cgroup) list")
         (read_subgroup_end: int)

record creds =
  sd_bus_creds_get_pid :: "error + pid_t"
  sd_bus_creds_get_euid :: "error + uid_t"

type_synonym JobMode = int

text \<open>
  The functions of other files that this file calls. A function that returns a negative
  \<open>errno\<close>-style value and fills in no bus error keeps its \<open>int\<close> result; one that
  fills in the bus error returns it.
\<close>

record env =
  mac_selinux_unit_access_check :: "Unit \<Rightarrow> string \<Rightarrow> error option"
  unit_active_state :: "Unit \<Rightarrow> UnitActiveState"
  unit_dbus_interface_from_type :: "UnitType \<Rightarrow> string"
  bus_foreach_bus :: "Unit \<Rightarrow> signal list \<Rightarrow> int \<times> nat"
  job_type_to_access_method :: "JobType \<Rightarrow> string"
  unit_can_reload :: "Unit \<Rightarrow> bool"
  job_type_collapse :: "JobType \<Rightarrow> Unit \<Rightarrow> JobType"
  manager_add_job :: "JobType \<Rightarrow> Unit \<Rightarrow> JobMode \<Rightarrow> error + Job"
  bus_job_track_sender :: "Job \<Rightarrow> error option"
  job_dbus_path :: "Job \<Rightarrow> string option"
  cgroup_at :: "string \<Rightarrow> cgroup"
  is_kernel_thread :: "pid_t \<Rightarrow> int"
  cg_pid_get_path :: "pid_t \<Rightarrow> int \<times> string"
  get_process_cmdline :: "pid_t \<Rightarrow> string option"
  unit_main_pid :: "Unit \<Rightarrow> pid_t"
  unit_control_pid :: "Unit \<Rightarrow> pid_t"
  path_is_absolute :: "string \<Rightarrow> bool"
  path_is_normalized :: "string \<Rightarrow> bool"
  unit_cgroup_delegate :: "Unit \<Rightarrow> bool"
  sd_bus_query_sender_creds :: "error + creds"
  getuid :: uid_t
  unit_pid_attachable :: "Unit \<Rightarrow> pid_t \<Rightarrow> error option"
  get_process_uid :: "pid_t \<Rightarrow> int \<times> uid_t"
  unit_attach_pids_to_cgroup :: "Unit \<Rightarrow> pid_t set \<Rightarrow> string option \<Rightarrow> int"
  UNIT_VTABLE :: "Unit \<Rightarrow> UnitVTable"
  unit_set_description :: "Unit \<Rightarrow> string \<Rightarrow> int \<times> Unit"
  collect_mode_from_string :: "string \<Rightarrow> int"
  emergency_action_from_string :: "string \<Rightarrow> int"
  job_mode_from_string :: "string \<Rightarrow> int"
  condition_type_from_string :: "string \<Rightarrow> ConditionType"
  assert_type_from_string :: "string \<Rightarrow> ConditionType"
  CONDITION_NULL :: ConditionType
  condition_takes_path :: "ConditionType \<Rightarrow> bool"
  documentation_url_is_valid :: "string \<Rightarrow> bool"
  UNIT_HAS_CGROUP_CONTEXT :: "Unit \<Rightarrow> bool"
  unit_has_name :: "Unit \<Rightarrow> string \<Rightarrow> bool"
  unit_name_is_valid :: "string \<Rightarrow> UnitNameFlag set \<Rightarrow> bool"
  manager_load_unit_prepare :: "string \<Rightarrow> error + Unit"
  unit_set_slice :: "Unit \<Rightarrow> Unit \<Rightarrow> int \<times> Unit"
  unit_require_mounts_for :: "Unit \<Rightarrow> string \<Rightarrow> int \<times> Unit"
  unit_dependency_from_string :: "string \<Rightarrow> UnitDependency option"
  unit_dependency_to_string :: "UnitDependency \<Rightarrow> string"
  unit_add_dependency_by_name :: "Unit \<Rightarrow> UnitDependency \<Rightarrow> string \<Rightarrow> int \<times> Unit"

text \<open>\<open>%s\<close> of a \<open>NULL\<close> string prints \<open>(null)\<close> (the C library).\<close>

definition strnull :: "string option \<Rightarrow> string" where
  "strnull s = (case s of None \<Rightarrow> ''(null)'' | Some t \<Rightarrow> t)"

text \<open>The bus library appends a \<open>NULL\<close> string as the empty string.\<close>

definition strempty :: "string option \<Rightarrow> string" where
  "strempty s = (case s of None \<Rightarrow> [] | Some t \<Rightarrow> t)"

subsection \<open>Property getters\<close>

text \<open>
  Modelled from the spec: \<open>empty_to_root\<close> (string-util.h) is not in the excerpt. The
  empty path is the root cgroup, which is written \<open>/\<close>; any other path is itself.
\<close>

definition empty_to_root :: "string \<Rightarrow> string" where
  "empty_to_root p = (if p = [] then ''/'' else p)"

text \<open>
  \<open>property_get_cgroup\<close>: \<open>t\<close> starts as \<open>NULL\<close> and is set only when the unit has a
  cgroup path.
\<close>

definition property_get_cgroup :: "Unit \<Rightarrow> string" where
  "property_get_cgroup u =
     (let t = (case cgroup_path u of None \<Rightarrow> None | Some p \<Rightarrow> Some (empty_to_root p))
      in strempty t)"

text \<open>
  \<open>property_get_job\<close>: the reply is the pair \<open>(uo)\<close>. \<open>job_dbus_path\<close> returns \<open>NULL\<close>
  when it cannot allocate the path, and the getter then returns \<open>-ENOMEM\<close>.
\<close>

definition property_get_job :: "env \<Rightarrow> Unit \<Rightarrow> error + (32 word \<times> string)" where
  "property_get_job env u =
     (case job u of
        None \<Rightarrow> Inr (0, ''/'')
      | Some j \<Rightarrow>
          (case job_dbus_path env j of
             None \<Rightarrow> Inl (Errno (- ENOMEM))
           | Some p \<Rightarrow> Inr (job_id j, p)))"

text \<open>
  \<open>property_get_conditions\<close>: the list is walked from its head; each entry is reported
  as \<open>(sbbsi)\<close>, the type by the name that \<open>to_string\<close> gives it.
\<close>

definition tristate :: "Condition \<Rightarrow> int" where
  "tristate c =
     (if result c = CONDITION_UNTESTED then 0
      else if result c = CONDITION_SUCCEEDED then 1 else - 1)"

definition property_get_conditions ::
  "(ConditionType \<Rightarrow> string) \<Rightarrow> Condition list \<Rightarrow> (string \<times> bool \<times> bool \<times> string \<times> int) list" where
  "property_get_conditions to_string list =
     map (\<lambda>c. (to_string (cond_type c), trigger c, negate c, strempty (parameter c), tristate c)) list"

subsection \<open>Change and removal signals\<close>

text \<open>
  \<open>bus_foreach_bus\<close> (dbus.c) is a parameter. It calls the sender given to it for the
  buses that are connected when it is called, for the API bus only if a client has
  subscribed, and returns the error of a sender that failed, if any. For the unit as it is
  at the call and the signals that the sender sends on one bus, in their order, the
  parameter gives the value returned and the number of these signals that go out on the
  bus of an observer: all of them if that bus is served and the sender succeeds, none if
  the bus is not served or the first send fails, the first of two if the second fails.
  \<open>call_bus_foreach_bus\<close> is the call, with the signals recorded in the unit.
  \<open>send_changed_signal\<close> sends the properties-changed signal of the unit type's interface
  first, then the one of the generic interface.
\<close>

definition call_bus_foreach_bus :: "env \<Rightarrow> Unit \<Rightarrow> signal list \<Rightarrow> int \<times> Unit" where
  "call_bus_foreach_bus env u sigs =
     (case bus_foreach_bus env u sigs of (r, k) \<Rightarrow>
        (r, u\<lparr>attempts := attempts u @ sigs, signals := signals u @ take k sigs\<rparr>))"

definition send_new_signal :: "Unit \<Rightarrow> signal list" where
  "send_new_signal u = [UnitNew]"

definition send_changed_signal :: "env \<Rightarrow> Unit \<Rightarrow> signal list" where
  "send_changed_signal env u =
     [PropertiesChanged (unit_dbus_interface_from_type env (unit_type u)),
      PropertiesChanged ''org.freedesktop.systemd1.Unit'']"

definition send_removed_signal :: "Unit \<Rightarrow> signal list" where
  "send_removed_signal u = [UnitRemoved]"

text \<open>
  \<open>bus_unit_send_change_signal\<close>: a negative result of \<open>bus_foreach_bus\<close> is logged and
  nothing else; \<open>sent_dbus_new_signal\<close> is set whatever the result is.
\<close>

definition bus_unit_send_change_signal :: "env \<Rightarrow> Unit \<Rightarrow> Unit" where
  "bus_unit_send_change_signal env u =
     (let u1 = (if in_dbus_queue u then u\<lparr>in_dbus_queue := False\<rparr> else u)
      in if unit_id u1 = None then u1
         else (case call_bus_foreach_bus env u1
                      (if sent_dbus_new_signal u1 then send_changed_signal env u1
                       else send_new_signal u1) of
                 (r, u2) \<Rightarrow> u2\<lparr>sent_dbus_new_signal := True\<rparr>))"

definition bus_unit_send_removed_signal :: "env \<Rightarrow> Unit \<Rightarrow> Unit" where
  "bus_unit_send_removed_signal env u =
     (let u1 = (if \<not> sent_dbus_new_signal u \<or> in_dbus_queue u
                then bus_unit_send_change_signal env u else u)
      in if unit_id u1 = None then u1
         else (case call_bus_foreach_bus env u1 (send_removed_signal u1) of
                 (r, u2) \<Rightarrow> u2))"

text \<open>
  What can happen to a unit between two signals: this file sends a change or a removal
  signal, or the rest of the manager puts the unit on the bus queue or changes its name.
\<close>

datatype unit_event = SendChange | SendRemoved | AddToDbusQueue | SetId "string option"

fun unit_step :: "env \<Rightarrow> Unit \<Rightarrow> unit_event \<Rightarrow> Unit" where
  "unit_step env u SendChange = bus_unit_send_change_signal env u"
| "unit_step env u SendRemoved = bus_unit_send_removed_signal env u"
| "unit_step env u AddToDbusQueue = u\<lparr>in_dbus_queue := True\<rparr>"
| "unit_step env u (SetId n) = u\<lparr>unit_id := n\<rparr>"

fun unit_run :: "env \<Rightarrow> Unit \<Rightarrow> unit_event list \<Rightarrow> Unit" where
  "unit_run env u [] = u"
| "unit_run env u (e # es) = unit_run env (unit_step env u e) es"

fun is_change_signal :: "signal \<Rightarrow> bool" where
  "is_change_signal UnitNew = True"
| "is_change_signal (PropertiesChanged i) = True"
| "is_change_signal UnitRemoved = False"

text \<open>Every removal signal of a trace has a change signal somewhere before it.\<close>

fun removed_after_change :: "bool \<Rightarrow> signal list \<Rightarrow> bool" where
  "removed_after_change seen [] = True"
| "removed_after_change seen (s # ss) =
     (if s = UnitRemoved then seen \<and> removed_after_change seen ss
      else removed_after_change (seen \<or> is_change_signal s) ss)"

subsection \<open>Job dispatcher\<close>

text \<open>
  \<open>bus_unit_queue_job\<close>. On success the result is the job type and mode handed to
  \<open>manager_add_job\<close> and the job's object path, which is the reply.
\<close>

definition only_by_dependency :: "Unit \<Rightarrow> error" where
  "only_by_dependency u =
     BusError BUS_ERROR_ONLY_BY_DEPENDENCY
       ''Operation refused, unit %s may be requested by dependency only (it is configured to refuse manual start/stop).''
       [ArgStr (strnull (unit_id u))]"

text \<open>
  The end of \<open>bus_unit_queue_job\<close>, past the guards: the job is handed to the manager,
  the sender is made a watcher of the job, and the job's path is the reply.
\<close>

definition add_job_and_reply ::
  "env \<Rightarrow> Unit \<Rightarrow> JobType \<Rightarrow> JobMode \<Rightarrow> error + (JobType \<times> JobMode \<times> string)" where
  "add_job_and_reply env u type mode =
     (case manager_add_job env type u mode of
        Inl e \<Rightarrow> Inl e
      | Inr j \<Rightarrow>
          (case bus_job_track_sender env j of
             Some e \<Rightarrow> Inl e
           | None \<Rightarrow>
               (case job_dbus_path env j of
                  None \<Rightarrow> Inl (Errno (- ENOMEM))
                | Some path \<Rightarrow> Inr (type, mode, path))))"

definition bus_unit_queue_job ::
  "env \<Rightarrow> Unit \<Rightarrow> JobType \<Rightarrow> JobMode \<Rightarrow> bool \<Rightarrow> error + (JobType \<times> JobMode \<times> string)" where
  "bus_unit_queue_job env u type0 mode reload_if_possible =
     (case mac_selinux_unit_access_check env u (job_type_to_access_method env type0) of
        Some e \<Rightarrow> Inl e
      | None \<Rightarrow>
          (let type =
                 (if reload_if_possible \<and> unit_can_reload env u then
                    (if type0 = JOB_RESTART then JOB_RELOAD_OR_START
                     else if type0 = JOB_TRY_RESTART then JOB_TRY_RELOAD
                     else type0)
                  else type0)
           in if type = JOB_STOP \<and> load_state u \<in> {UNIT_NOT_FOUND, UNIT_ERROR} \<and>
                 unit_active_state env u = UNIT_INACTIVE
              then Inl (BusError BUS_ERROR_NO_SUCH_UNIT ''Unit %s not loaded.''
                          [ArgStr (strnull (unit_id u))])
              else if (type = JOB_START \<and> refuse_manual_start u) \<or>
                      (type = JOB_STOP \<and> refuse_manual_stop u) \<or>
                      (type \<in> {JOB_RESTART, JOB_TRY_RESTART} \<and>
                         (refuse_manual_start u \<or> refuse_manual_stop u)) \<or>
                      (type = JOB_RELOAD_OR_START \<and> job_type_collapse env type u = JOB_START \<and>
                         refuse_manual_start u)
              then Inl (only_by_dependency u)
              else add_job_and_reply env u type mode))"

subsection \<open>Cgroup process walker\<close>

text \<open>
  The reply under construction is the list of the \<open>(sus)\<close> entries appended so far, oldest
  first, together with the set \<open>pids\<close> of the PIDs seen. \<open>set_put\<close> returns 0 for a PID
  that is in the set already, and adds the PID otherwise.
\<close>

type_synonym reply_entry = "string \<times> 32 word \<times> string"

type_synonym walk = "reply_entry list \<times> pid_t set"

definition append_process :: "env \<Rightarrow> string option \<Rightarrow> pid_t \<Rightarrow> walk \<Rightarrow> int \<times> walk" where
  "append_process env p pid w =
     (case w of (reply, pids) \<Rightarrow>
        if pid \<in> pids then (0, w)
        else
          (let pids' = insert pid pids;
               cmdline = strempty (get_process_cmdline env pid)
           in case p of
                Some q \<Rightarrow> (0, (reply @ [(q, pid, cmdline)], pids'))
              | None \<Rightarrow>
                  (case cg_pid_get_path env pid of (r, buf) \<Rightarrow>
                     if r = - ESRCH then (0, (reply, pids'))
                     else if r < 0 then (r, (reply, pids'))
                     else (0, (reply @ [(buf, pid, cmdline)], pids')))))"

text \<open>
  The first loop of \<open>append_cgroup\<close>, over the PIDs that \<open>cg_read_pid\<close> yields; \<open>e\<close> is
  what \<open>cg_read_pid\<close> returns after the last of them. A negative result leaves
  \<open>append_cgroup\<close>; 0 is the \<open>break\<close>.
\<close>

fun append_pids :: "env \<Rightarrow> string \<Rightarrow> pid_t list \<Rightarrow> int \<Rightarrow> walk \<Rightarrow> int \<times> walk" where
  "append_pids env p [] e w = (if e < 0 then (e, w) else (0, w))"
| "append_pids env p (pid # rest) e w =
     (if is_kernel_thread env pid > 0 then append_pids env p rest e w
      else (case append_process env (Some p) pid w of (r, w') \<Rightarrow>
              if r < 0 then (r, w') else append_pids env p rest e w'))"

text \<open>
  \<open>append_cgroup\<close> and its second loop, over the subgroups that \<open>cg_read_subgroup\<close>
  yields. The result of \<open>cg_enumerate_processes\<close> is compared with \<open>ENOENT\<close>, that of
  \<open>cg_enumerate_subgroups\<close> with \<open>-ENOENT\<close>.
\<close>

fun append_cgroup :: "env \<Rightarrow> string \<Rightarrow> cgroup \<Rightarrow> walk \<Rightarrow> int \<times> walk"
and append_subgroups ::
  "env \<Rightarrow> string \<Rightarrow> (string \<times> cgroup) list \<Rightarrow> int \<Rightarrow> walk \<Rightarrow> int \<times> walk" where
  "append_cgroup env p (CGroup r1 ps e1 r2 subs e2) w =
     (if r1 = ENOENT then (0, w)
      else if r1 < 0 then (r1, w)
      else (case append_pids env p ps e1 w of (r, w') \<Rightarrow>
              if r < 0 then (r, w')
              else if r2 = - ENOENT then (0, w')
              else if r2 < 0 then (r2, w')
              else append_subgroups env p subs e2 w'))"
| "append_subgroups env p [] e w = (if e < 0 then (e, w) else (0, w))"
| "append_subgroups env p ((g, c) # rest) e w =
     (case append_cgroup env (p @ ''/'' @ g) c w of (r, w') \<Rightarrow>
        if r < 0 then (r, w') else append_subgroups env p rest e w')"

text \<open>
  \<open>bus_unit_method_get_processes\<close>: the walk of the unit's cgroup, if it has one, then
  the main and the control PID, each looked up for its own cgroup path.
\<close>

definition bus_unit_method_get_processes :: "env \<Rightarrow> Unit \<Rightarrow> error + reply_entry list" where
  "bus_unit_method_get_processes env u =
     (case mac_selinux_unit_access_check env u ''status'' of
        Some e \<Rightarrow> Inl e
      | None \<Rightarrow>
          (case (case cgroup_path u of
                   None \<Rightarrow> (0, ([], {}))
                 | Some p \<Rightarrow> append_cgroup env p (cgroup_at env p) ([], {})) of
             (r1, w1) \<Rightarrow>
               if r1 < 0 then Inl (Errno r1)
               else
                 (case (if 0 < sint (unit_main_pid env u)
                        then append_process env None (unit_main_pid env u) w1
                        else (0, w1)) of
                    (r2, w2) \<Rightarrow>
                      if r2 < 0 then Inl (Errno r2)
                      else
                        (case (if 0 < sint (unit_control_pid env u)
                               then append_process env None (unit_control_pid env u) w2
                               else (0, w2)) of
                           (r3, w3) \<Rightarrow>
                             if r3 < 0 then Inl (Errno r3) else Inr (fst w3)))))"

subsection \<open>Attaching processes\<close>

text \<open>
  Modelled from the spec: \<open>empty_to_null\<close> (string-util.h), \<open>UNIT_IS_INACTIVE_OR_FAILED\<close>
  (unit.h) and \<open>PID_FMT\<close> (format-util.h) are not in the excerpt. The first maps the
  empty string to \<open>NULL\<close>, the second holds of the active states inactive and failed, the
  third is the \<open>printf\<close> format of a \<open>pid_t\<close>.
\<close>

definition empty_to_null :: "string \<Rightarrow> string option" where
  "empty_to_null p = (if p = [] then None else Some p)"

definition UNIT_IS_INACTIVE_OR_FAILED :: "UnitActiveState \<Rightarrow> bool" where
  "UNIT_IS_INACTIVE_OR_FAILED t = (t \<in> {UNIT_INACTIVE, UNIT_FAILED})"

definition PID_FMT :: string where
  "PID_FMT = ''%i''"

definition not_owned_by_client :: "pid_t \<Rightarrow> error" where
  "not_owned_by_client pid =
     BusError SD_BUS_ERROR_ACCESS_DENIED
       (''Process '' @ PID_FMT @ '' not owned by client's UID. Refusing.'') [ArgInt (sint pid)]"

definition not_owned_by_unit :: "pid_t \<Rightarrow> error" where
  "not_owned_by_unit pid =
     BusError SD_BUS_ERROR_ACCESS_DENIED
       (''Process '' @ PID_FMT @ '' not owned by target unit's UID. Refusing.'') [ArgInt (sint pid)]"

text \<open>
  The loop of \<open>bus_unit_method_attach_processes\<close> over the array of PIDs of the message.
  \<open>pids\<close> is the set of the PIDs that passed; the \<open>NULL\<close> set the code starts with is the
  empty set. The PID 0 stands for the sender's own process.
\<close>

definition requested_pid :: "creds \<Rightarrow> 32 word \<Rightarrow> error + pid_t" where
  "requested_pid cr upid = (if upid = 0 then sd_bus_creds_get_pid cr else Inr upid)"

fun attach_loop ::
  "env \<Rightarrow> Unit \<Rightarrow> creds \<Rightarrow> 32 word list \<Rightarrow> pid_t set \<Rightarrow> error + pid_t set" where
  "attach_loop env u cr [] pids = Inr pids"
| "attach_loop env u cr (upid # rest) pids =
     (case requested_pid cr upid of
        Inl e \<Rightarrow> Inl e
      | Inr pid \<Rightarrow>
          if pid \<in> pids then attach_loop env u cr rest pids
          else
            (case unit_pid_attachable env u pid of
               Some e \<Rightarrow> Inl e
             | None \<Rightarrow>
                 (case sd_bus_creds_get_euid cr of
                    Inl e \<Rightarrow> Inl e
                  | Inr sender_uid \<Rightarrow>
                      if sender_uid \<noteq> 0 \<and> sender_uid \<noteq> getuid env then
                        (case get_process_uid env pid of (r, process_uid) \<Rightarrow>
                           if r < 0 then Inl (BusErrno r ''Failed to retrieve process UID: %m'')
                           else if process_uid \<noteq> sender_uid then Inl (not_owned_by_client pid)
                           else if process_uid \<noteq> ref_uid u then Inl (not_owned_by_unit pid)
                           else attach_loop env u cr rest (insert pid pids))
                      else attach_loop env u cr rest (insert pid pids))))"

text \<open>
  \<open>bus_unit_method_attach_processes\<close>. The second component of the result is the list of
  the calls of \<open>unit_attach_pids_to_cgroup\<close> made, each with the set of PIDs and the
  path below the unit's cgroup that it was given.
\<close>

type_synonym migration = "pid_t set \<times> string option"

definition bus_unit_method_attach_processes ::
  "env \<Rightarrow> Unit \<Rightarrow> string \<Rightarrow> 32 word list \<Rightarrow> (error + unit) \<times> migration list" where
  "bus_unit_method_attach_processes env u path0 upids =
     (case mac_selinux_unit_access_check env u ''start'' of
        Some e \<Rightarrow> (Inl e, [])
      | None \<Rightarrow>
          (let path = empty_to_null path0 in
           if path \<noteq> None \<and> \<not> path_is_absolute env path0 then
             (Inl (BusError SD_BUS_ERROR_INVALID_ARGS
                     ''Control group path is not absolute: %s'' [ArgStr path0]), [])
           else if path \<noteq> None \<and> \<not> path_is_normalized env path0 then
             (Inl (BusError SD_BUS_ERROR_INVALID_ARGS
                     ''Control group path is not normalized: %s'' [ArgStr path0]), [])
           else if \<not> unit_cgroup_delegate env u then
             (Inl (BusError SD_BUS_ERROR_INVALID_ARGS
                     ''Process migration not available on non-delegated units.'' []), [])
           else if UNIT_IS_INACTIVE_OR_FAILED (unit_active_state env u) then
             (Inl (BusError SD_BUS_ERROR_INVALID_ARGS ''Unit is not active, refusing.'' []), [])
           else
             (case sd_bus_query_sender_creds env of
                Inl e \<Rightarrow> (Inl e, [])
              | Inr cr \<Rightarrow>
                  (case attach_loop env u cr upids {} of
                     Inl e \<Rightarrow> (Inl e, [])
                   | Inr pids \<Rightarrow>
                       (let r = unit_attach_pids_to_cgroup env u pids path in
                        if r < 0 then
                          (Inl (BusErrno r ''Failed to attach processes to control group: %m''),
                           [(pids, path)])
                        else (Inr (), [(pids, path)]))))))"

subsection \<open>Property writer: the setters\<close>

text \<open>
  Modelled from the spec: the macro \<open>UNIT_WRITE_FLAGS_NOOP\<close> (unit.h) is not in the
  excerpt. The flags are a no-op, and a handler validates without storing anything, when
  neither of the two target flags \<open>UNIT_RUNTIME\<close> and \<open>UNIT_PERSISTENT\<close> is set: these
  are the flags that the first pass masks out.
\<close>

definition UNIT_WRITE_FLAGS_NOOP :: "UnitWriteFlags \<Rightarrow> bool" where
  "UNIT_WRITE_FLAGS_NOOP flags = (UNIT_RUNTIME \<notin> flags \<and> UNIT_PERSISTENT \<notin> flags)"

text \<open>
  A property value is read from the message by its bus type; reading a value of another
  type fails with \<open>-ENXIO\<close> and consumes nothing.
\<close>

definition read_error :: error where
  "read_error = Errno (- ENXIO)"

text \<open>Modelled from the spec: \<open>yes_no\<close> (string-util.h) is not in the excerpt.\<close>

definition yes_no :: "bool \<Rightarrow> string" where
  "yes_no b = (if b then ''yes'' else ''no'')"

text \<open>
  Modelled from the spec: \<open>unit_write_settingf\<close> (unit.c) is not in the excerpt. It
  records a human-readable setting line for persistence; the line is kept as its format
  and arguments, under the flags and the name it was written with.
\<close>

definition unit_write_settingf ::
  "Unit \<Rightarrow> UnitWriteFlags \<Rightarrow> string \<Rightarrow> string \<Rightarrow> fmt_arg list \<Rightarrow> Unit" where
  "unit_write_settingf u flags name fmt args =
     u\<lparr>settings := settings u @ [(flags, name, fmt, args)]\<rparr>"

text \<open>
  Modelled from the spec: \<open>condition_new\<close> (condition.c) is not in the excerpt. A new
  condition has the type, parameter and flags given, and is untested.
\<close>

definition condition_new :: "ConditionType \<Rightarrow> string option \<Rightarrow> bool \<Rightarrow> bool \<Rightarrow> Condition" where
  "condition_new t param trig neg =
     \<lparr>cond_type = t, trigger = trig, negate = neg, parameter = param,
      result = CONDITION_UNTESTED\<rparr>"

text \<open>
  Modelled from the spec: the scalar setters \<open>bus_set_transient_bool\<close>, \<open>_string\<close>,
  \<open>_path\<close>, \<open>_unsigned\<close>, \<open>_usec\<close>, \<open>_usec_fix_0\<close> and the macro
  \<open>BUS_DEFINE_SET_TRANSIENT_PARSE\<close> (dbus-util.c, dbus-util.h) are not in the excerpt.
  Each reads a value of its bus type, validates it and, unless the flags are a no-op,
  stores it in the field \<open>p\<close> points to and records the setting line. The pointer \<open>p\<close>
  is the function that stores a value in the field.
\<close>

definition bus_set_transient_bool ::
  "Unit \<Rightarrow> string \<Rightarrow> (bool \<Rightarrow> Unit \<Rightarrow> Unit) \<Rightarrow> bus_value \<Rightarrow> UnitWriteFlags \<Rightarrow> handled" where
  "bus_set_transient_bool u name p v flags =
     (case v of
        VBool b \<Rightarrow>
          if UNIT_WRITE_FLAGS_NOOP flags then (Inr 1, u)
          else (Inr 1, unit_write_settingf (p b u) flags name ''%s=%s''
                         [ArgStr name, ArgStr (yes_no b)])
      | _ \<Rightarrow> (Inl read_error, u))"

definition bus_set_transient_string ::
  "Unit \<Rightarrow> string \<Rightarrow> (string option \<Rightarrow> Unit \<Rightarrow> Unit) \<Rightarrow> bus_value \<Rightarrow> UnitWriteFlags \<Rightarrow> handled" where
  "bus_set_transient_string u name p v flags =
     (case v of
        VString s \<Rightarrow>
          if UNIT_WRITE_FLAGS_NOOP flags then (Inr 1, u)
          else (Inr 1, unit_write_settingf (p (if s = [] then None else Some s) u)
                         (insert UNIT_ESCAPE_SPECIFIERS flags) name ''%s=%s''
                         [ArgStr name, ArgStr s])
      | _ \<Rightarrow> (Inl read_error, u))"

definition bus_set_transient_path ::
  "env \<Rightarrow> Unit \<Rightarrow> string \<Rightarrow> (string option \<Rightarrow> Unit \<Rightarrow> Unit) \<Rightarrow> bus_value \<Rightarrow>
   UnitWriteFlags \<Rightarrow> handled" where
  "bus_set_transient_path env u name p v flags =
     (case v of
        VString s \<Rightarrow>
          if s \<noteq> [] \<and> \<not> path_is_absolute env s then
            (Inl (BusError SD_BUS_ERROR_INVALID_ARGS ''Invalid %s setting: %s''
                    [ArgStr name, ArgStr s]), u)
          else if UNIT_WRITE_FLAGS_NOOP flags then (Inr 1, u)
          else (Inr 1, unit_write_settingf (p (if s = [] then None else Some s) u)
                         (insert UNIT_ESCAPE_SPECIFIERS flags) name ''%s=%s''
                         [ArgStr name, ArgStr s])
      | _ \<Rightarrow> (Inl read_error, u))"

definition bus_set_transient_unsigned ::
  "Unit \<Rightarrow> string \<Rightarrow> (32 word \<Rightarrow> Unit \<Rightarrow> Unit) \<Rightarrow> bus_value \<Rightarrow> UnitWriteFlags \<Rightarrow> handled" where
  "bus_set_transient_unsigned u name p v flags =
     (case v of
        VUint32 n \<Rightarrow>
          if UNIT_WRITE_FLAGS_NOOP flags then (Inr 1, u)
          else (Inr 1, unit_write_settingf (p n u) flags name ''%s=%u''
                         [ArgStr name, ArgInt (uint n)])
      | _ \<Rightarrow> (Inl read_error, u))"

definition USEC_INFINITY :: usec_t where
  "USEC_INFINITY = - 1"

definition bus_set_transient_usec_internal ::
  "Unit \<Rightarrow> string \<Rightarrow> (usec_t \<Rightarrow> Unit \<Rightarrow> Unit) \<Rightarrow> bool \<Rightarrow> bus_value \<Rightarrow> UnitWriteFlags \<Rightarrow>
   handled" where
  "bus_set_transient_usec_internal u name p fix_0 v flags =
     (case v of
        VUint64 t \<Rightarrow>
          if UNIT_WRITE_FLAGS_NOOP flags then (Inr 1, u)
          else (Inr 1, unit_write_settingf
                         (p (if fix_0 \<and> t = 0 then USEC_INFINITY else t) u) flags name
                         ''%s=%s'' [ArgStr name, ArgInt (uint t)])
      | _ \<Rightarrow> (Inl read_error, u))"

definition bus_set_transient_usec ::
  "Unit \<Rightarrow> string \<Rightarrow> (usec_t \<Rightarrow> Unit \<Rightarrow> Unit) \<Rightarrow> bus_value \<Rightarrow> UnitWriteFlags \<Rightarrow> handled" where
  "bus_set_transient_usec u name p v flags =
     bus_set_transient_usec_internal u name p False v flags"

definition bus_set_transient_usec_fix_0 ::
  "Unit \<Rightarrow> string \<Rightarrow> (usec_t \<Rightarrow> Unit \<Rightarrow> Unit) \<Rightarrow> bus_value \<Rightarrow> UnitWriteFlags \<Rightarrow> handled" where
  "bus_set_transient_usec_fix_0 u name p v flags =
     bus_set_transient_usec_internal u name p True v flags"

definition BUS_DEFINE_SET_TRANSIENT_PARSE ::
  "(string \<Rightarrow> int) \<Rightarrow> Unit \<Rightarrow> string \<Rightarrow> (int \<Rightarrow> Unit \<Rightarrow> Unit) \<Rightarrow> bus_value \<Rightarrow>
   UnitWriteFlags \<Rightarrow> handled" where
  "BUS_DEFINE_SET_TRANSIENT_PARSE parse u name p v flags =
     (case v of
        VString s \<Rightarrow>
          if parse s < 0 then
            (Inl (BusError SD_BUS_ERROR_INVALID_ARGS ''Invalid %s setting: %s''
                    [ArgStr name, ArgStr s]), u)
          else if UNIT_WRITE_FLAGS_NOOP flags then (Inr 1, u)
          else (Inr 1, unit_write_settingf (p (parse s) u) flags name ''%s=%s''
                         [ArgStr name, ArgStr s])
      | _ \<Rightarrow> (Inl read_error, u))"

definition bus_set_transient_collect_mode ::
  "env \<Rightarrow> Unit \<Rightarrow> string \<Rightarrow> (int \<Rightarrow> Unit \<Rightarrow> Unit) \<Rightarrow> bus_value \<Rightarrow> UnitWriteFlags \<Rightarrow> handled" where
  "bus_set_transient_collect_mode env =
     BUS_DEFINE_SET_TRANSIENT_PARSE (collect_mode_from_string env)"

definition bus_set_transient_emergency_action ::
  "env \<Rightarrow> Unit \<Rightarrow> string \<Rightarrow> (int \<Rightarrow> Unit \<Rightarrow> Unit) \<Rightarrow> bus_value \<Rightarrow> UnitWriteFlags \<Rightarrow> handled" where
  "bus_set_transient_emergency_action env =
     BUS_DEFINE_SET_TRANSIENT_PARSE (emergency_action_from_string env)"

definition bus_set_transient_job_mode ::
  "env \<Rightarrow> Unit \<Rightarrow> string \<Rightarrow> (int \<Rightarrow> Unit \<Rightarrow> Unit) \<Rightarrow> bus_value \<Rightarrow> UnitWriteFlags \<Rightarrow> handled" where
  "bus_set_transient_job_mode env =
     BUS_DEFINE_SET_TRANSIENT_PARSE (job_mode_from_string env)"

subsection \<open>Property writer: live properties\<close>

definition bus_unit_set_live_property ::
  "env \<Rightarrow> Unit \<Rightarrow> string \<Rightarrow> bus_value \<Rightarrow> UnitWriteFlags \<Rightarrow> handled" where
  "bus_unit_set_live_property env u name v flags =
     (if name = ''Description'' then
        (case v of
           VString d \<Rightarrow>
             if UNIT_WRITE_FLAGS_NOOP flags then (Inr 1, u)
             else (case unit_set_description env u d of (r, u') \<Rightarrow>
                     if r < 0 then (Inl (Errno r), u')
                     else (Inr 1, unit_write_settingf u' (insert UNIT_ESCAPE_SPECIFIERS flags)
                                    name ''Description=%s'' [ArgStr d]))
         | _ \<Rightarrow> (Inl read_error, u))
      else (Inr 0, u))"

subsection \<open>Property writer: conditions and asserts\<close>

text \<open>
  The loop of \<open>bus_set_transient_conditions\<close> over the array of \<open>(sbbs)\<close> entries. \<open>list\<close>
  points to the unit's condition list or to its assert list: it is the function that
  applies a change to that list. \<open>LIST_PREPEND\<close> puts the new condition in front of the
  list. The Boolean \<open>empty0\<close> is the variable \<open>empty\<close>.
\<close>

fun conditions_loop ::
  "env \<Rightarrow> Unit \<Rightarrow> string \<Rightarrow> ((Condition list \<Rightarrow> Condition list) \<Rightarrow> Unit \<Rightarrow> Unit) \<Rightarrow> bool \<Rightarrow>
   (string \<times> bool \<times> bool \<times> string) list \<Rightarrow> UnitWriteFlags \<Rightarrow> bool \<Rightarrow> (error + bool) \<times> Unit" where
  "conditions_loop env u name list is_condition [] flags empty0 = (Inr empty0, u)"
| "conditions_loop env u name list is_condition ((type_name, trig, neg, param) # rest) flags empty0 =
     (let t = (if is_condition then condition_type_from_string env type_name
               else assert_type_from_string env type_name)
      in if t < 0 then
           (Inl (BusError SD_BUS_ERROR_INVALID_ARGS ''Invalid condition type: %s''
                   [ArgStr type_name]), u)
         else if t \<noteq> CONDITION_NULL env \<and> param = [] then
           (Inl (BusError SD_BUS_ERROR_INVALID_ARGS ''Condition parameter in %s is empty''
                   [ArgStr type_name]), u)
         else if t \<noteq> CONDITION_NULL env \<and> condition_takes_path env t \<and>
                 \<not> path_is_absolute env param then
           (Inl (BusError SD_BUS_ERROR_INVALID_ARGS ''Path in condition %s is not absolute: %s''
                   [ArgStr type_name, ArgStr param]), u)
         else
           (let param' = (if t \<noteq> CONDITION_NULL env then Some param else None);
                u' = (if UNIT_WRITE_FLAGS_NOOP flags then u
                      else
                        (let c = condition_new t param' trig neg;
                             u1 = list (\<lambda>l. c # l) u
                         in if t \<noteq> CONDITION_NULL env then
                              unit_write_settingf u1 (insert UNIT_ESCAPE_SPECIFIERS flags) name
                                ''%s=%s%s%s''
                                [ArgStr type_name, ArgStr (if trig then ''|'' else []),
                                 ArgStr (if neg then ''!'' else []), ArgStr param]
                            else
                              unit_write_settingf u1 flags name ''%s=%s%s''
                                [ArgStr type_name, ArgStr (if trig then ''|'' else []),
                                 ArgStr (yes_no (\<not> neg))]))
            in conditions_loop env u' name list is_condition rest flags False))"

definition bus_set_transient_conditions ::
  "env \<Rightarrow> Unit \<Rightarrow> string \<Rightarrow> ((Condition list \<Rightarrow> Condition list) \<Rightarrow> Unit \<Rightarrow> Unit) \<Rightarrow> bool \<Rightarrow>
   bus_value \<Rightarrow> UnitWriteFlags \<Rightarrow> handled" where
  "bus_set_transient_conditions env u name list is_condition v flags =
     (case v of
        VConditions entries \<Rightarrow>
          (case conditions_loop env u name list is_condition entries flags True of
             (Inl e, u') \<Rightarrow> (Inl e, u')
           | (Inr empty0, u') \<Rightarrow>
               if \<not> UNIT_WRITE_FLAGS_NOOP flags \<and> empty0 then
                 (Inr 1, unit_write_settingf (list (\<lambda>l. []) u') flags name ''%sNull=''
                           [ArgStr (if is_condition then ''Condition'' else ''Assert'')])
               else (Inr 1, u'))
      | _ \<Rightarrow> (Inl read_error, u))"

subsection \<open>Property writer: transient properties\<close>

text \<open>The blocks of \<open>bus_unit_set_transient_property\<close> that are more than one call.\<close>

definition set_transient_documentation ::
  "env \<Rightarrow> Unit \<Rightarrow> string \<Rightarrow> bus_value \<Rightarrow> UnitWriteFlags \<Rightarrow> handled" where
  "set_transient_documentation env u name v flags =
     (case v of
        VStrv l \<Rightarrow>
          (case find (\<lambda>p. \<not> documentation_url_is_valid env p) l of
             Some p \<Rightarrow>
               (Inl (BusError SD_BUS_ERROR_INVALID_ARGS ''Invalid URL in %s: %s''
                       [ArgStr name, ArgStr p]), u)
           | None \<Rightarrow>
               if UNIT_WRITE_FLAGS_NOOP flags then (Inr 1, u)
               else if l = [] then
                 (Inr 1, unit_write_settingf (u\<lparr>documentation := []\<rparr>) flags name ''%s=''
                           [ArgStr name])
               else
                 (Inr 1, foldl (\<lambda>u' p. unit_write_settingf u' flags name ''%s=%s''
                                         [ArgStr name, ArgStr p])
                           (u\<lparr>documentation := documentation u @ l\<rparr>) l))
      | _ \<Rightarrow> (Inl read_error, u))"

text \<open>
  Modelled from the spec: \<open>SPECIAL_INIT_SCOPE\<close> (special.h) is not in the excerpt; it is
  the unit name of the error message beside it.
\<close>

definition SPECIAL_INIT_SCOPE :: string where
  "SPECIAL_INIT_SCOPE = ''init.scope''"

definition set_transient_slice ::
  "env \<Rightarrow> Unit \<Rightarrow> string \<Rightarrow> bus_value \<Rightarrow> UnitWriteFlags \<Rightarrow> handled" where
  "set_transient_slice env u name v flags =
     (if \<not> UNIT_HAS_CGROUP_CONTEXT env u then
        (Inl (BusError SD_BUS_ERROR_INVALID_ARGS
                ''The slice property is only available for units with control groups.'' []), u)
      else if unit_type u = UNIT_SLICE then
        (Inl (BusError SD_BUS_ERROR_INVALID_ARGS ''Slice may not be set for slice units.'' []), u)
      else if unit_has_name env u SPECIAL_INIT_SCOPE then
        (Inl (BusError SD_BUS_ERROR_INVALID_ARGS ''Cannot set slice for init.scope'' []), u)
      else
        (case v of
           VString s \<Rightarrow>
             if \<not> unit_name_is_valid env s {UNIT_NAME_PLAIN} then
               (Inl (BusError SD_BUS_ERROR_INVALID_ARGS (''Invalid unit name '%s'' @ [CHR 0x27])
                       [ArgStr s]), u)
             else
               (case manager_load_unit_prepare env s of
                  Inl e \<Rightarrow> (Inl e, u)
                | Inr slice0 \<Rightarrow>
                    if unit_type slice0 \<noteq> UNIT_SLICE then
                      (Inl (BusError SD_BUS_ERROR_INVALID_ARGS ''Unit name '%s' is not a slice''
                              [ArgStr s]), u)
                    else if UNIT_WRITE_FLAGS_NOOP flags then (Inr 1, u)
                    else
                      (case unit_set_slice env u slice0 of (r, u') \<Rightarrow>
                         if r < 0 then (Inl (Errno r), u')
                         else (Inr 1, unit_write_settingf u' (insert UNIT_PRIVATE flags) name
                                        ''Slice=%s'' [ArgStr s])))
         | _ \<Rightarrow> (Inl read_error, u)))"

fun requires_mounts_for_loop ::
  "env \<Rightarrow> Unit \<Rightarrow> string \<Rightarrow> string list \<Rightarrow> UnitWriteFlags \<Rightarrow> handled" where
  "requires_mounts_for_loop env u name [] flags = (Inr 1, u)"
| "requires_mounts_for_loop env u name (p # rest) flags =
     (if \<not> path_is_absolute env p then
        (Inl (BusError SD_BUS_ERROR_INVALID_ARGS ''Path specified in %s is not absolute: %s''
                [ArgStr name, ArgStr p]), u)
      else if UNIT_WRITE_FLAGS_NOOP flags then requires_mounts_for_loop env u name rest flags
      else
        (case unit_require_mounts_for env u p of (r, u') \<Rightarrow>
           if r < 0 then
             (Inl (BusError SD_BUS_ERROR_INVALID_ARGS
                     (''Failed to add required mount '' @ [CHR 0x22] @ ''%s'' @ [CHR 0x22] @ '': %m'')
                     [ArgStr p]), u')
           else requires_mounts_for_loop env
                  (unit_write_settingf u' flags name ''%s=%s'' [ArgStr name, ArgStr p])
                  name rest flags))"

definition set_transient_requires_mounts_for ::
  "env \<Rightarrow> Unit \<Rightarrow> string \<Rightarrow> bus_value \<Rightarrow> UnitWriteFlags \<Rightarrow> handled" where
  "set_transient_requires_mounts_for env u name v flags =
     (case v of
        VStrv l \<Rightarrow> requires_mounts_for_loop env u name l flags
      | _ \<Rightarrow> (Inl read_error, u))"

fun dependencies_loop ::
  "env \<Rightarrow> Unit \<Rightarrow> string \<Rightarrow> UnitDependency \<Rightarrow> string list \<Rightarrow> UnitWriteFlags \<Rightarrow> handled" where
  "dependencies_loop env u name d [] flags = (Inr 1, u)"
| "dependencies_loop env u name d (other # rest) flags =
     (if \<not> unit_name_is_valid env other {UNIT_NAME_PLAIN, UNIT_NAME_INSTANCE} then
        (Inl (BusError SD_BUS_ERROR_INVALID_ARGS ''Invalid unit name %s'' [ArgStr other]), u)
      else if UNIT_WRITE_FLAGS_NOOP flags then dependencies_loop env u name d rest flags
      else
        (case unit_add_dependency_by_name env u d other of (r, u') \<Rightarrow>
           if r < 0 then (Inl (Errno r), u')
           else dependencies_loop env
                  (unit_write_settingf u' flags (name @ ''-'' @ other) ''%s=%s''
                     [ArgStr (unit_dependency_to_string env d), ArgStr other])
                  name d rest flags))"

definition set_transient_dependencies ::
  "env \<Rightarrow> Unit \<Rightarrow> string \<Rightarrow> UnitDependency \<Rightarrow> bus_value \<Rightarrow> UnitWriteFlags \<Rightarrow> handled" where
  "set_transient_dependencies env u name d v flags =
     (case v of
        VStrv l \<Rightarrow> dependencies_loop env u name d l flags
      | _ \<Rightarrow> (Inl read_error, u))"

definition set_transient_add_ref ::
  "Unit \<Rightarrow> bus_value \<Rightarrow> UnitWriteFlags \<Rightarrow> handled" where
  "set_transient_add_ref u v flags =
     (case v of
        VBool b \<Rightarrow>
          if UNIT_WRITE_FLAGS_NOOP flags then (Inr 1, u) else (Inr 1, u\<lparr>bus_track_add := b\<rparr>)
      | _ \<Rightarrow> (Inl read_error, u))"

text \<open>
  \<open>bus_unit_set_transient_property\<close> from the test for \<open>JobRunningTimeoutUSec\<close> to its
  end. The dependency kind \<open>d\<close> is \<open>None\<close> where the code has a negative value.
\<close>

definition bus_unit_set_transient_property_tail ::
  "env \<Rightarrow> Unit \<Rightarrow> string \<Rightarrow> bus_value \<Rightarrow> UnitWriteFlags \<Rightarrow> handled" where
  "bus_unit_set_transient_property_tail env u name v flags =
     (if name = ''JobRunningTimeoutUSec'' then
        (case bus_set_transient_usec_fix_0 u name (\<lambda>x w. w\<lparr>job_running_timeout := x\<rparr>) v flags of
           (r, u') \<Rightarrow>
             if \<not> isl r \<and> \<not> UNIT_WRITE_FLAGS_NOOP flags
             then (r, u'\<lparr>job_running_timeout_set := True\<rparr>) else (r, u'))
      else if name = ''JobTimeoutAction'' then
        bus_set_transient_emergency_action env u name (\<lambda>x w. w\<lparr>job_timeout_action := x\<rparr>) v flags
      else if name = ''JobTimeoutRebootArgument'' then
        bus_set_transient_string u name (\<lambda>x w. w\<lparr>job_timeout_reboot_arg := x\<rparr>) v flags
      else if name = ''StartLimitIntervalUSec'' then
        bus_set_transient_usec u name (\<lambda>x w. w\<lparr>start_limit_interval := x\<rparr>) v flags
      else if name = ''StartLimitBurst'' then
        bus_set_transient_unsigned u name (\<lambda>x w. w\<lparr>start_limit_burst := x\<rparr>) v flags
      else if name = ''StartLimitAction'' then
        bus_set_transient_emergency_action env u name (\<lambda>x w. w\<lparr>start_limit_action := x\<rparr>) v flags
      else if name = ''FailureAction'' then
        bus_set_transient_emergency_action env u name (\<lambda>x w. w\<lparr>failure_action := x\<rparr>) v flags
      else if name = ''SuccessAction'' then
        bus_set_transient_emergency_action env u name (\<lambda>x w. w\<lparr>success_action := x\<rparr>) v flags
      else if name = ''RebootArgument'' then
        bus_set_transient_string u name (\<lambda>x w. w\<lparr>reboot_arg := x\<rparr>) v flags
      else if name = ''CollectMode'' then
        bus_set_transient_collect_mode env u name (\<lambda>x w. w\<lparr>collect_mode := x\<rparr>) v flags
      else if name = ''Conditions'' then
        bus_set_transient_conditions env u name conditions_update True v flags
      else if name = ''Asserts'' then
        bus_set_transient_conditions env u name asserts_update False v flags
      else if name = ''Documentation'' then set_transient_documentation env u name v flags
      else if name = ''Slice'' then set_transient_slice env u name v flags
      else if name = ''RequiresMountsFor'' then
        set_transient_requires_mounts_for env u name v flags
      else
        (let d = (if name = ''RequiresOverridable'' then Some UNIT_REQUIRES
                  else if name = ''RequisiteOverridable'' then Some UNIT_REQUISITE
                  else unit_dependency_from_string env name)
         in case d of
              Some k \<Rightarrow> set_transient_dependencies env u name k v flags
            | None \<Rightarrow>
                if name = ''AddRef'' then set_transient_add_ref u v flags
                else (Inr 0, u)))"

text \<open>
  \<open>bus_unit_set_transient_property\<close>. The block for \<open>JobTimeoutUSec\<close> has no \<open>return\<close>:
  after it the function goes on with the tests that follow, on the unit as the block
  left it.
\<close>

definition bus_unit_set_transient_property ::
  "env \<Rightarrow> Unit \<Rightarrow> string \<Rightarrow> bus_value \<Rightarrow> UnitWriteFlags \<Rightarrow> handled" where
  "bus_unit_set_transient_property env u name v flags =
     (if name = ''SourcePath'' then
        bus_set_transient_path env u name (\<lambda>x w. w\<lparr>source_path := x\<rparr>) v flags
      else if name = ''StopWhenUnneeded'' then
        bus_set_transient_bool u name (\<lambda>x w. w\<lparr>stop_when_unneeded := x\<rparr>) v flags
      else if name = ''RefuseManualStart'' then
        bus_set_transient_bool u name (\<lambda>x w. w\<lparr>refuse_manual_start := x\<rparr>) v flags
      else if name = ''RefuseManualStop'' then
        bus_set_transient_bool u name (\<lambda>x w. w\<lparr>refuse_manual_stop := x\<rparr>) v flags
      else if name = ''AllowIsolate'' then
        bus_set_transient_bool u name (\<lambda>x w. w\<lparr>allow_isolate := x\<rparr>) v flags
      else if name = ''DefaultDependencies'' then
        bus_set_transient_bool u name (\<lambda>x w. w\<lparr>default_dependencies := x\<rparr>) v flags
      else if name = ''OnFailureJobMode'' then
        bus_set_transient_job_mode env u name (\<lambda>x w. w\<lparr>on_failure_job_mode := x\<rparr>) v flags
      else if name = ''IgnoreOnIsolate'' then
        bus_set_transient_bool u name (\<lambda>x w. w\<lparr>ignore_on_isolate := x\<rparr>) v flags
      else if name = ''JobTimeoutUSec'' then
        (case bus_set_transient_usec_fix_0 u name (\<lambda>x w. w\<lparr>job_timeout := x\<rparr>) v flags of
           (r, u') \<Rightarrow>
             bus_unit_set_transient_property_tail env
               (if \<not> isl r \<and> \<not> UNIT_WRITE_FLAGS_NOOP flags \<and> \<not> job_running_timeout_set u'
                then u'\<lparr>job_running_timeout := job_timeout u'\<rparr> else u')
               name v flags)
      else bus_unit_set_transient_property_tail env u name v flags)"

subsection \<open>Property writer: the two passes\<close>

text \<open>
  The loop of \<open>bus_unit_set_properties\<close>. \<open>entries\<close> is the array of the message, \<open>todo\<close>
  what is left of it in the current pass; at its end the first pass rewinds the message
  and the loop goes on, for real. \<open>set_property_entry\<close> is the body of the loop for one
  entry, from the check of the unit type's handler to the error for a property that no
  handler knows; a handler's result 0 is \<open>Inr 0\<close>.
\<close>

definition set_property_entry ::
  "env \<Rightarrow> Unit \<Rightarrow> string \<Rightarrow> bus_value \<Rightarrow> UnitWriteFlags \<Rightarrow> handled" where
  "set_property_entry env u name v f =
     (case bus_set_property (UNIT_VTABLE env u) of
        None \<Rightarrow>
          (Inl (BusError SD_BUS_ERROR_PROPERTY_READ_ONLY
                  ''Objects of this type do not support setting properties.'' []), u)
      | Some set_property \<Rightarrow>
          (case set_property u name v f of (r1, u1) \<Rightarrow>
           case (if r1 = Inr 0 \<and> transient u1 \<and> load_state u1 = UNIT_STUB
                 then bus_unit_set_transient_property env u1 name v f else (r1, u1)) of
             (r2, u2) \<Rightarrow>
           case (if r2 = Inr 0 then bus_unit_set_live_property env u2 name v f else (r2, u2)) of
             (r3, u3) \<Rightarrow>
           (case r3 of
              Inl e \<Rightarrow> (Inl e, u3)
            | Inr k \<Rightarrow>
                if k = 0 then
                  (Inl (BusError SD_BUS_ERROR_PROPERTY_READ_ONLY
                          ''Cannot set property %s, or unknown property.'' [ArgStr name]), u3)
                else (Inr k, u3))))"

function bus_unit_set_properties_loop ::
  "env \<Rightarrow> UnitWriteFlags \<Rightarrow> (string \<times> bus_value) list \<Rightarrow> bool \<Rightarrow> nat \<Rightarrow>
   (string \<times> bus_value) list \<Rightarrow> Unit \<Rightarrow> (error + nat) \<times> Unit" where
  "bus_unit_set_properties_loop env flags entries for_real n [] u =
     (if for_real \<or> UNIT_WRITE_FLAGS_NOOP flags then (Inr n, u)
      else bus_unit_set_properties_loop env flags entries True n entries u)"
| "bus_unit_set_properties_loop env flags entries for_real n ((name, v) # todo) u =
     (let f = (if for_real then flags else flags - {UNIT_RUNTIME, UNIT_PERSISTENT}) in
      case set_property_entry env u name v f of
        (Inl e, u') \<Rightarrow> (Inl e, u')
      | (Inr k, u') \<Rightarrow>
          bus_unit_set_properties_loop env flags entries for_real
            (n + (if for_real then 1 else 0)) todo u')"
  by pat_completeness auto
termination
  by (relation "measure (\<lambda>(env, flags, entries, for_real, n, todo, u).
        (if for_real then 0 else length entries + 1) + length todo)") auto

definition bus_unit_set_properties ::
  "env \<Rightarrow> Unit \<Rightarrow> (string \<times> bus_value) list \<Rightarrow> UnitWriteFlags \<Rightarrow> bool \<Rightarrow> (error + nat) \<times> Unit" where
  "bus_unit_set_properties env u entries flags commit =
     (case bus_unit_set_properties_loop env flags entries False 0 entries u of
        (Inl e, u') \<Rightarrow> (Inl e, u')
      | (Inr n, u') \<Rightarrow>
          if commit \<and> n > 0 then
            (case bus_commit_properties (UNIT_VTABLE env u') of
               Some commit_properties \<Rightarrow> (Inr n, commit_properties u')
             | None \<Rightarrow> (Inr n, u'))
          else (Inr n, u'))"

subsection \<open>A unit and an environment to evaluate on\<close>

definition unit0 :: Unit where
  "unit0 =
     \<lparr>unit_id = Some ''a.service'', unit_type = UNIT_SERVICE, load_state = UNIT_LOADED,
      transient = False, job = None, cgroup_path = Some ''/a'', ref_uid = 1000,
      in_dbus_queue = False, sent_dbus_new_signal = False, attempts = [], signals = [],
      description = None, source_path = None, stop_when_unneeded = False,
      refuse_manual_start = False, refuse_manual_stop = False, allow_isolate = False,
      default_dependencies = True, ignore_on_isolate = False, on_failure_job_mode = 0,
      job_timeout = 0, job_running_timeout = 0, job_running_timeout_set = False,
      job_timeout_action = 0, job_timeout_reboot_arg = None, start_limit_interval = 0,
      start_limit_burst = 0, start_limit_action = 0, failure_action = 0,
      success_action = 0, reboot_arg = None, collect_mode = 0, conditions = [],
      asserts = [], documentation = [], bus_track_add = False, settings = []\<rparr>"

definition vtable0 :: UnitVTable where
  "vtable0 = \<lparr>bus_set_property = Some (\<lambda>u name v flags. (Inr 0, u)),
              bus_commit_properties = None\<rparr>"

definition env0 :: env where
  "env0 =
     \<lparr>mac_selinux_unit_access_check = (\<lambda>u m. None),
      unit_active_state = (\<lambda>u. UNIT_ACTIVE),
      unit_dbus_interface_from_type = (\<lambda>t. ''org.freedesktop.systemd1.Service''),
      bus_foreach_bus = (\<lambda>u sigs. (0, length sigs)),
      job_type_to_access_method = (\<lambda>t. ''start''),
      unit_can_reload = (\<lambda>u. True),
      job_type_collapse = (\<lambda>t u. if t = JOB_RELOAD_OR_START then JOB_RELOAD else t),
      manager_add_job = (\<lambda>t u m. Inr \<lparr>job_id = 7\<rparr>),
      bus_job_track_sender = (\<lambda>j. None),
      job_dbus_path = (\<lambda>j. Some ''/org/freedesktop/systemd1/job/7''),
      cgroup_at = (\<lambda>p. CGroup 0 [] 0 0 [] 0),
      is_kernel_thread = (\<lambda>p. 0),
      cg_pid_get_path = (\<lambda>p. (0, ''/b'')),
      get_process_cmdline = (\<lambda>p. None),
      unit_main_pid = (\<lambda>u. 0),
      unit_control_pid = (\<lambda>u. 0),
      path_is_absolute = (\<lambda>p. p \<noteq> [] \<and> hd p = CHR ''/''),
      path_is_normalized = (\<lambda>p. True),
      unit_cgroup_delegate = (\<lambda>u. True),
      sd_bus_query_sender_creds =
        Inr \<lparr>sd_bus_creds_get_pid = Inr 4242, sd_bus_creds_get_euid = Inr 1000\<rparr>,
      getuid = 0,
      unit_pid_attachable = (\<lambda>u p. None),
      get_process_uid = (\<lambda>p. (0, 1000)),
      unit_attach_pids_to_cgroup = (\<lambda>u s p. 0),
      UNIT_VTABLE = (\<lambda>u. vtable0),
      unit_set_description = (\<lambda>u d. (0, u\<lparr>description := Some d\<rparr>)),
      collect_mode_from_string = (\<lambda>s. if s = ''inactive'' then 0 else - 1),
      emergency_action_from_string = (\<lambda>s. if s = ''none'' then 0 else - 1),
      job_mode_from_string = (\<lambda>s. if s = ''replace'' then 0 else - 1),
      condition_type_from_string =
        (\<lambda>s. if s = ''ConditionPathExists'' then 1 else if s = ''ConditionNull'' then 0 else - 1),
      assert_type_from_string =
        (\<lambda>s. if s = ''AssertPathExists'' then 1 else if s = ''AssertNull'' then 0 else - 1),
      CONDITION_NULL = 0,
      condition_takes_path = (\<lambda>t. t = 1),
      documentation_url_is_valid = (\<lambda>s. True),
      UNIT_HAS_CGROUP_CONTEXT = (\<lambda>u. True),
      unit_has_name = (\<lambda>u n. unit_id u = Some n),
      unit_name_is_valid = (\<lambda>s f. s \<noteq> []),
      manager_load_unit_prepare = (\<lambda>s. Inr (unit0\<lparr>unit_id := Some s, unit_type := UNIT_SLICE\<rparr>)),
      unit_set_slice = (\<lambda>u s. (0, u)),
      unit_require_mounts_for = (\<lambda>u p. (0, u)),
      unit_dependency_from_string = (\<lambda>s. if s = ''Wants'' then Some UNIT_WANTS else None),
      unit_dependency_to_string = (\<lambda>d. ''Wants''),
      unit_add_dependency_by_name = (\<lambda>u d n. (0, u))\<rparr>"

subsection \<open>Predicates of the statements\<close>

text \<open>
  The invariant of the signals of a unit: every removal signal that a sender was called to
  send has a change signal before it, and the flag \<open>sent_dbus_new_signal\<close> is set only
  once a sender was called to send a change signal. A bus delivers everything if all the
  signals of every call go out on the observer's bus.
\<close>

definition signal_inv :: "Unit \<Rightarrow> bool" where
  "signal_inv u =
     (removed_after_change False (attempts u) \<and>
      (sent_dbus_new_signal u \<longrightarrow> (\<exists>s \<in> set (attempts u). is_change_signal s)))"

definition bus_delivers_all :: "env \<Rightarrow> bool" where
  "bus_delivers_all env = (\<forall>u sigs. length sigs \<le> snd (bus_foreach_bus env u sigs))"

text \<open>
  The invariant of the walk: the PIDs of the reply are in the set of the PIDs seen, and
  no PID is in the reply twice.
\<close>

definition reply_pids :: "reply_entry list \<Rightarrow> 32 word list" where
  "reply_pids reply = map (\<lambda>e. fst (snd e)) reply"

definition walk_inv :: "walk \<Rightarrow> bool" where
  "walk_inv w = (set (reply_pids (fst w)) \<subseteq> snd w \<and> distinct (reply_pids (fst w)))"

text \<open>
  A PID that is in the set of the PIDs seen but not in the reply is one whose cgroup path
  could not be looked up.
\<close>

definition lookup_inv :: "env \<Rightarrow> walk \<Rightarrow> bool" where
  "lookup_inv env w =
     (\<forall>pid \<in> snd w - set (reply_pids (fst w)). fst (cg_pid_get_path env pid) < 0)"

text \<open>
  The ownership of a process, for a sender with the effective uid \<open>s\<close>: the uid of the
  process is read and is both \<open>s\<close> and the unit's \<open>ref_uid\<close>, or it is read and differs
  from one of them; and the error of the code for the latter.
\<close>

definition owner_matches :: "env \<Rightarrow> Unit \<Rightarrow> uid_t \<Rightarrow> pid_t \<Rightarrow> bool" where
  "owner_matches env u s pid =
     (case get_process_uid env pid of (r, process_uid) \<Rightarrow>
        0 \<le> r \<and> process_uid = s \<and> process_uid = ref_uid u)"

definition owner_mismatch :: "env \<Rightarrow> Unit \<Rightarrow> uid_t \<Rightarrow> pid_t \<Rightarrow> bool" where
  "owner_mismatch env u s pid =
     (case get_process_uid env pid of (r, process_uid) \<Rightarrow>
        0 \<le> r \<and> (process_uid \<noteq> s \<or> process_uid \<noteq> ref_uid u))"

definition ownership_denied :: "env \<Rightarrow> uid_t \<Rightarrow> pid_t \<Rightarrow> error" where
  "ownership_denied env s pid =
     (if snd (get_process_uid env pid) \<noteq> s then not_owned_by_client pid
      else not_owned_by_unit pid)"

text \<open>
  The checks of \<open>bus_unit_method_attach_processes\<close> before it looks at the PIDs: the
  access check, the path, delegation and the active state.
\<close>

definition attach_admitted :: "env \<Rightarrow> Unit \<Rightarrow> string \<Rightarrow> bool" where
  "attach_admitted env u path =
     (mac_selinux_unit_access_check env u ''start'' = None \<and>
      (path = [] \<or> (path_is_absolute env path \<and> path_is_normalized env path)) \<and>
      unit_cgroup_delegate env u \<and>
      \<not> UNIT_IS_INACTIVE_OR_FAILED (unit_active_state env u))"

text \<open>
  What \<open>bus_set_transient_conditions\<close> checks of one entry of the array, and the
  condition it makes of the entry.
\<close>

definition entry_type :: "env \<Rightarrow> bool \<Rightarrow> string \<Rightarrow> ConditionType" where
  "entry_type env is_condition type_name =
     (if is_condition then condition_type_from_string env type_name
      else assert_type_from_string env type_name)"

fun condition_entry_valid :: "env \<Rightarrow> bool \<Rightarrow> string \<times> bool \<times> bool \<times> string \<Rightarrow> bool" where
  "condition_entry_valid env is_condition (type_name, trig, neg, param) =
     (0 \<le> entry_type env is_condition type_name \<and>
      (entry_type env is_condition type_name = CONDITION_NULL env \<or>
       (param \<noteq> [] \<and>
        (\<not> condition_takes_path env (entry_type env is_condition type_name) \<or>
         path_is_absolute env param))))"

fun entry_condition :: "env \<Rightarrow> bool \<Rightarrow> string \<times> bool \<times> bool \<times> string \<Rightarrow> Condition" where
  "entry_condition env is_condition (type_name, trig, neg, param) =
     condition_new (entry_type env is_condition type_name)
       (if entry_type env is_condition type_name \<noteq> CONDITION_NULL env then Some param else None)
       trig neg"

text \<open>
  An entry of a batch is invalid for a unit if the first pass, which runs the handlers
  with the two target flags masked out, ends with an error on it. The handler of the
  unit's type is a parameter: it is taken to honour the flags, that is, to leave the unit
  as it is when the flags are a no-op.
\<close>

definition entry_invalid :: "env \<Rightarrow> UnitWriteFlags \<Rightarrow> Unit \<Rightarrow> string \<times> bus_value \<Rightarrow> bool" where
  "entry_invalid env flags u e =
     isl (fst (set_property_entry env u (fst e) (snd e) (flags - {UNIT_RUNTIME, UNIT_PERSISTENT})))"

definition vtable_honours_noop :: "env \<Rightarrow> bool" where
  "vtable_honours_noop env =
     (\<forall>u h name v f. bus_set_property (UNIT_VTABLE env u) = Some h \<and> UNIT_WRITE_FLAGS_NOOP f \<longrightarrow>
        snd (h u name v f) = u)"

section \<open>Properties\<close>

subsection \<open>The ControlGroup property\<close>

text \<open>
  C9. The \<open>ControlGroup\<close> property keeps the three states of the cgroup path apart: no
  path (\<open>NULL\<close>) is reported as the empty string, the empty path as \<open>/\<close>, and every other
  path as it is.
\<close>

theorem property_get_cgroup_tristate:
  "(cgroup_path u = None \<longrightarrow> property_get_cgroup u = []) \<and>
   (cgroup_path u = Some [] \<longrightarrow> property_get_cgroup u = ''/'') \<and>
   (\<forall>p. cgroup_path u = Some p \<and> p \<noteq> [] \<longrightarrow> property_get_cgroup u = p)"
  by (simp add: property_get_cgroup_def empty_to_root_def strempty_def)

theorem property_get_cgroup_tristate_witness:
  "property_get_cgroup (unit0\<lparr>cgroup_path := None\<rparr>) = [] \<and>
   property_get_cgroup (unit0\<lparr>cgroup_path := Some []\<rparr>) = ''/'' \<and>
   property_get_cgroup (unit0\<lparr>cgroup_path := Some ''/foo''\<rparr>) = ''/foo''"
  using property_get_cgroup_tristate [of "unit0\<lparr>cgroup_path := None\<rparr>"]
        property_get_cgroup_tristate [of "unit0\<lparr>cgroup_path := Some []\<rparr>"]
        property_get_cgroup_tristate [of "unit0\<lparr>cgroup_path := Some ''/foo''\<rparr>"]
  by simp

subsection \<open>The Job property\<close>

text \<open>
  C10. For a unit with no outstanding job the \<open>Job\<close> property is the pair of the id 0
  and the object path \<open>/\<close>; for a unit with a job it is the job's id and the job's object
  path. So the pair \<open>(0, /)\<close> is read for a unit with a job only if that job has the id 0
  and the object path \<open>/\<close>.
\<close>

theorem property_get_job_encoding:
  "(job u = None \<longrightarrow> property_get_job env u = Inr (0, ''/'')) \<and>
   (\<forall>j p. job u = Some j \<and> job_dbus_path env j = Some p \<longrightarrow>
      property_get_job env u = Inr (job_id j, p) \<and>
      (property_get_job env u = Inr (0, ''/'') \<longrightarrow> job_id j = 0 \<and> p = ''/''))"
  by (simp add: property_get_job_def)

theorem property_get_job_encoding_witness:
  "property_get_job env0 (unit0\<lparr>job := None\<rparr>) = Inr (0, ''/'') \<and>
   property_get_job env0 (unit0\<lparr>job := Some \<lparr>job_id = 7\<rparr>\<rparr>) =
     Inr (7, ''/org/freedesktop/systemd1/job/7'')"
  using property_get_job_encoding [of "unit0\<lparr>job := None\<rparr>" env0]
        property_get_job_encoding [of "unit0\<lparr>job := Some \<lparr>job_id = 7\<rparr>\<rparr>" env0]
  by (simp add: env0_def)

subsection \<open>Change before removal\<close>

lemma removed_after_change_append:
  "removed_after_change seen (xs @ ys) =
     (removed_after_change seen xs \<and>
      removed_after_change (seen \<or> (\<exists>s \<in> set xs. is_change_signal s)) ys)"
  by (induction xs arbitrary: seen) auto

lemma removed_after_change_nth:
  "removed_after_change seen tr \<Longrightarrow> i < length tr \<Longrightarrow> tr ! i = UnitRemoved \<Longrightarrow>
   seen \<or> (\<exists>j<i. is_change_signal (tr ! j))"
proof (induction tr arbitrary: seen i)
  case Nil
  then show ?case by simp
next
  case (Cons s ss)
  show ?case
  proof (cases i)
    case 0
    with Cons.prems show ?thesis by (simp split: if_splits)
  next
    case (Suc k)
    show ?thesis
    proof (cases "s = UnitRemoved")
      case True
      with Cons.prems Suc have "removed_after_change seen ss" "k < length ss" "ss ! k = UnitRemoved"
        by auto
      from Cons.IH [OF this] show ?thesis using Suc by auto
    next
      case False
      with Cons.prems Suc
      have "removed_after_change (seen \<or> is_change_signal s) ss" "k < length ss" "ss ! k = UnitRemoved"
        by simp_all
      from Cons.IH [OF this] show ?thesis using Suc by (auto intro: exI [of _ 0])
    qed
  qed
qed

lemma is_change_signal_iff:
  "is_change_signal s = (s = UnitNew \<or> (\<exists>iface. s = PropertiesChanged iface))"
  by (cases s) auto

lemma change_signal_attempts:
  "attempts (bus_unit_send_change_signal env u) =
     (if unit_id u = None then attempts u
      else attempts u @
           (if sent_dbus_new_signal u
            then [PropertiesChanged (unit_dbus_interface_from_type env (unit_type u)),
                  PropertiesChanged ''org.freedesktop.systemd1.Unit'']
            else [UnitNew]))"
  by (auto simp: bus_unit_send_change_signal_def call_bus_foreach_bus_def Let_def
        send_changed_signal_def send_new_signal_def split: prod.splits)

lemma change_signal_flags:
  "unit_id (bus_unit_send_change_signal env u) = unit_id u \<and>
   unit_type (bus_unit_send_change_signal env u) = unit_type u \<and>
   \<not> in_dbus_queue (bus_unit_send_change_signal env u) \<and>
   sent_dbus_new_signal (bus_unit_send_change_signal env u) =
     (unit_id u \<noteq> None \<or> sent_dbus_new_signal u)"
  by (auto simp: bus_unit_send_change_signal_def call_bus_foreach_bus_def Let_def
        split: prod.splits)

lemma removed_signal_attempts:
  "attempts (bus_unit_send_removed_signal env u) =
     (if unit_id u = None then attempts u
      else (if \<not> sent_dbus_new_signal u \<or> in_dbus_queue u
            then attempts (bus_unit_send_change_signal env u) else attempts u) @ [UnitRemoved])"
  using change_signal_flags [of env u] change_signal_attempts [of env u]
  by (auto simp: bus_unit_send_removed_signal_def call_bus_foreach_bus_def Let_def
        send_removed_signal_def split: prod.splits)

lemma removed_signal_flags:
  "sent_dbus_new_signal (bus_unit_send_removed_signal env u) =
     (if \<not> sent_dbus_new_signal u \<or> in_dbus_queue u
      then sent_dbus_new_signal (bus_unit_send_change_signal env u)
      else sent_dbus_new_signal u)"
  by (auto simp: bus_unit_send_removed_signal_def call_bus_foreach_bus_def Let_def
        split: prod.splits)

lemma change_signal_inv: "signal_inv u \<Longrightarrow> signal_inv (bus_unit_send_change_signal env u)"
  using change_signal_flags [of env u]
  by (auto simp: signal_inv_def change_signal_attempts removed_after_change_append)

lemma removed_signal_inv: "signal_inv u \<Longrightarrow> signal_inv (bus_unit_send_removed_signal env u)"
  using change_signal_flags [of env u]
  by (auto simp: signal_inv_def removed_signal_attempts removed_signal_flags
        change_signal_attempts removed_after_change_append)

lemma unit_step_inv: "signal_inv u \<Longrightarrow> signal_inv (unit_step env u e)"
  by (cases e) (auto simp: change_signal_inv removed_signal_inv, auto simp: signal_inv_def)

lemma unit_run_inv: "signal_inv u \<Longrightarrow> signal_inv (unit_run env u es)"
  by (induction es arbitrary: u) (auto simp: unit_step_inv)

lemma call_delivered:
  "call_bus_foreach_bus env u sigs = (r, u2) \<Longrightarrow> bus_delivers_all env \<Longrightarrow>
   signals u = attempts u \<Longrightarrow> signals u2 = attempts u2"
  by (auto simp: call_bus_foreach_bus_def bus_delivers_all_def split: prod.splits)
     (metis snd_conv take_all)

lemma change_signal_delivered:
  assumes "bus_delivers_all env" and "signals u = attempts u"
  shows "signals (bus_unit_send_change_signal env u) = attempts (bus_unit_send_change_signal env u)"
  using assms
  by (auto simp: bus_unit_send_change_signal_def Let_def split: prod.splits
        dest!: call_delivered)

lemma removed_signal_delivered:
  assumes "bus_delivers_all env" and "signals u = attempts u"
  shows "signals (bus_unit_send_removed_signal env u) = attempts (bus_unit_send_removed_signal env u)"
proof -
  define u1 where "u1 = (if \<not> sent_dbus_new_signal u \<or> in_dbus_queue u
                         then bus_unit_send_change_signal env u else u)"
  have eq: "bus_unit_send_removed_signal env u =
              (if unit_id u1 = None then u1
               else snd (call_bus_foreach_bus env u1 (send_removed_signal u1)))"
    unfolding u1_def bus_unit_send_removed_signal_def Let_def case_prod_beta ..
  have e: "signals u1 = attempts u1"
    unfolding u1_def using assms change_signal_delivered [OF assms] by simp
  obtain r u2 where c: "call_bus_foreach_bus env u1 (send_removed_signal u1) = (r, u2)"
    by (cases "call_bus_foreach_bus env u1 (send_removed_signal u1)")
  from call_delivered [OF c assms(1) e] have "signals u2 = attempts u2" .
  with e c show ?thesis unfolding eq by simp
qed

lemma unit_run_delivered:
  "bus_delivers_all env \<Longrightarrow> signals u = attempts u \<Longrightarrow>
   signals (unit_run env u es) = attempts (unit_run env u es)"
proof (induction es arbitrary: u)
  case Nil
  then show ?case by simp
next
  case (Cons e es)
  have "signals (unit_step env u e) = attempts (unit_step env u e)"
    using Cons.prems
    by (cases e) (simp_all add: change_signal_delivered removed_signal_delivered)
  from Cons.IH [OF Cons.prems(1) this] show ?case by simp
qed

lemma no_id_no_signal:
  "unit_id v = None \<Longrightarrow>
   attempts (bus_unit_send_removed_signal env v) = attempts v \<and>
   attempts (bus_unit_send_change_signal env v) = attempts v \<and>
   signals (bus_unit_send_removed_signal env v) = signals v \<and>
   signals (bus_unit_send_change_signal env v) = signals v"
  by (auto simp: bus_unit_send_removed_signal_def bus_unit_send_change_signal_def Let_def)

text \<open>
  C8 as stated fails. No client has subscribed when the change signal of a new unit is
  due: \<open>bus_foreach_bus\<close> sends nothing, and \<open>bus_unit_send_change_signal\<close> sets
  \<open>sent_dbus_new_signal\<close> all the same. When the unit is removed later, with a client
  on the bus, \<open>bus_unit_send_removed_signal\<close> sends \<open>UnitRemoved\<close> alone: the only
  signal that goes out for the unit is a removal, with no change signal before it.
\<close>

theorem removed_observed_without_change:
  "signals unit0 = [] \<and> sent_dbus_new_signal unit0 = False \<and>
   signals (unit_run
              (env0\<lparr>bus_foreach_bus :=
                      (\<lambda>u sigs. if sent_dbus_new_signal u then (0, length sigs) else (0, 0))\<rparr>)
              unit0 [SendChange, SendRemoved]) = [UnitRemoved]"
  by (simp add: unit0_def bus_unit_send_removed_signal_def bus_unit_send_change_signal_def
        call_bus_foreach_bus_def send_new_signal_def send_removed_signal_def)

text \<open>
  C8, amended. Take a unit for which no signal has been sent or attempted yet, and let any
  sequence of events happen to it: change signals and removal signals sent by this file,
  the unit being put on the bus queue, its name being set or unset. Among the signals that
  the senders are called to send, every \<open>UnitRemoved\<close> has a change signal before it,
  \<open>UnitNew\<close> or \<open>PropertiesChanged\<close>; the signals that go out on an observer's bus have
  this property if the bus delivers every call, and need not have it otherwise, because
  \<open>sent_dbus_new_signal\<close> is set whether the call has sent anything or not.
  \<open>bus_unit_send_removed_signal\<close> on a unit with a name first has a change signal sent
  whenever the flag is not set or the unit is on the bus queue: \<open>UnitNew\<close> if the flag is
  not set, else the \<open>PropertiesChanged\<close> of the unit type's interface and then that of
  the generic unit interface. For a unit without a name neither function sends or
  attempts anything.
\<close>

theorem removed_never_without_change:
  assumes "attempts u = []" and "signals u = []" and "\<not> sent_dbus_new_signal u"
  shows "(\<forall>i < length (attempts (unit_run env u es)).
            attempts (unit_run env u es) ! i = UnitRemoved \<longrightarrow>
            (\<exists>j<i. attempts (unit_run env u es) ! j = UnitNew \<or>
                    (\<exists>iface. attempts (unit_run env u es) ! j = PropertiesChanged iface))) \<and>
         ((\<forall>v sigs. length sigs \<le> snd (bus_foreach_bus env v sigs)) \<longrightarrow>
            (\<forall>i < length (signals (unit_run env u es)).
               signals (unit_run env u es) ! i = UnitRemoved \<longrightarrow>
               (\<exists>j<i. signals (unit_run env u es) ! j = UnitNew \<or>
                       (\<exists>iface. signals (unit_run env u es) ! j = PropertiesChanged iface)))) \<and>
         (\<forall>v. unit_id v \<noteq> None \<and> (\<not> sent_dbus_new_signal v \<or> in_dbus_queue v) \<longrightarrow>
            attempts (bus_unit_send_removed_signal env v) =
              attempts v @
              (if sent_dbus_new_signal v
               then [PropertiesChanged (unit_dbus_interface_from_type env (unit_type v)),
                     PropertiesChanged ''org.freedesktop.systemd1.Unit'']
               else [UnitNew]) @
              [UnitRemoved]) \<and>
         (\<forall>v. unit_id v = None \<longrightarrow>
            attempts (bus_unit_send_removed_signal env v) = attempts v \<and>
            attempts (bus_unit_send_change_signal env v) = attempts v \<and>
            signals (bus_unit_send_removed_signal env v) = signals v \<and>
            signals (bus_unit_send_change_signal env v) = signals v)"
proof -
  let ?a = "attempts (unit_run env u es)"
  let ?s = "signals (unit_run env u es)"
  have "signal_inv u" using assms by (simp add: signal_inv_def)
  then have "signal_inv (unit_run env u es)" by (rule unit_run_inv)
  then have "removed_after_change False ?a" by (simp add: signal_inv_def)
  from removed_after_change_nth [OF this]
  have a: "\<forall>i < length ?a. ?a ! i = UnitRemoved \<longrightarrow>
            (\<exists>j<i. ?a ! j = UnitNew \<or> (\<exists>iface. ?a ! j = PropertiesChanged iface))"
    by (simp add: is_change_signal_iff)
  have b: "(\<forall>v sigs. length sigs \<le> snd (bus_foreach_bus env v sigs)) \<longrightarrow>
            (\<forall>i < length ?s. ?s ! i = UnitRemoved \<longrightarrow>
               (\<exists>j<i. ?s ! j = UnitNew \<or> (\<exists>iface. ?s ! j = PropertiesChanged iface)))"
  proof
    assume "\<forall>v sigs. length sigs \<le> snd (bus_foreach_bus env v sigs)"
    then have "bus_delivers_all env" by (simp add: bus_delivers_all_def)
    moreover have "signals u = attempts u" using assms by simp
    ultimately have "?s = ?a" by (rule unit_run_delivered)
    with a show "\<forall>i < length ?s. ?s ! i = UnitRemoved \<longrightarrow>
               (\<exists>j<i. ?s ! j = UnitNew \<or> (\<exists>iface. ?s ! j = PropertiesChanged iface))"
      by simp
  qed
  have c: "\<forall>v. unit_id v \<noteq> None \<and> (\<not> sent_dbus_new_signal v \<or> in_dbus_queue v) \<longrightarrow>
            attempts (bus_unit_send_removed_signal env v) =
              attempts v @
              (if sent_dbus_new_signal v
               then [PropertiesChanged (unit_dbus_interface_from_type env (unit_type v)),
                     PropertiesChanged ''org.freedesktop.systemd1.Unit'']
               else [UnitNew]) @
              [UnitRemoved]"
    by (auto simp: removed_signal_attempts change_signal_attempts)
  from a b c no_id_no_signal [of _ env] show ?thesis by blast
qed

theorem removed_never_without_change_witness:
  "attempts unit0 = [] \<and> signals unit0 = [] \<and> sent_dbus_new_signal unit0 = False \<and>
   attempts (unit_run env0 unit0 [AddToDbusQueue, SendRemoved]) = [UnitNew, UnitRemoved] \<and>
   (\<exists>j<1. attempts (unit_run env0 unit0 [AddToDbusQueue, SendRemoved]) ! j = UnitNew \<or>
      (\<exists>iface. attempts (unit_run env0 unit0 [AddToDbusQueue, SendRemoved]) ! j =
         PropertiesChanged iface))"
proof -
  let ?a = "attempts (unit_run env0 unit0 [AddToDbusQueue, SendRemoved])"
  have h1: "attempts unit0 = []" and h2: "signals unit0 = []"
    and h3: "\<not> sent_dbus_new_signal unit0"
    by (simp_all add: unit0_def)
  have tr: "?a = [UnitNew, UnitRemoved]"
    by (simp add: unit0_def bus_unit_send_removed_signal_def bus_unit_send_change_signal_def
          call_bus_foreach_bus_def send_new_signal_def send_removed_signal_def
          split: prod.splits)
  from removed_never_without_change [OF h1 h2 h3, of env0 "[AddToDbusQueue, SendRemoved]"]
  have "\<forall>i < length ?a. ?a ! i = UnitRemoved \<longrightarrow>
            (\<exists>j<i. ?a ! j = UnitNew \<or> (\<exists>iface. ?a ! j = PropertiesChanged iface))"
    by blast
  then have "1 < length ?a \<longrightarrow> ?a ! 1 = UnitRemoved \<longrightarrow>
            (\<exists>j<1. ?a ! j = UnitNew \<or> (\<exists>iface. ?a ! j = PropertiesChanged iface))"
    by blast
  moreover have "1 < length ?a" "?a ! 1 = UnitRemoved" unfolding tr by simp_all
  ultimately have "\<exists>j<1. ?a ! j = UnitNew \<or> (\<exists>iface. ?a ! j = PropertiesChanged iface)"
    by blast
  with h1 h2 h3 tr show ?thesis by simp
qed

subsection \<open>Guards of the job dispatcher\<close>

text \<open>
  C4 as stated fails: the unit below carries refuse-manual-start and supports reload, and
  a restart request with \<open>reload_if_possible\<close> is not refused but handed to the manager,
  as a reload-or-start job.
\<close>

theorem queue_job_restart_not_refused:
  "refuse_manual_start (unit0\<lparr>refuse_manual_start := True\<rparr>) \<and>
   unit_can_reload env0 (unit0\<lparr>refuse_manual_start := True\<rparr>) \<and>
   bus_unit_queue_job env0 (unit0\<lparr>refuse_manual_start := True\<rparr>) JOB_RESTART 0 True =
     Inr (JOB_RELOAD_OR_START, 0, ''/org/freedesktop/systemd1/job/7'') \<and>
   bus_unit_queue_job env0 (unit0\<lparr>refuse_manual_start := True\<rparr>) JOB_RESTART 0 True \<noteq>
     Inl (only_by_dependency (unit0\<lparr>refuse_manual_start := True\<rparr>))"
  by (simp add: bus_unit_queue_job_def add_job_and_reply_def env0_def)

text \<open>
  C4, amended. \<open>bus_unit_queue_job\<close> downgrades the operation for \<open>reload_if_possible\<close>
  first, and the guards that follow see the downgraded operation. Once the access check
  has passed, a restart request with \<open>reload_if_possible\<close> for a unit that carries
  refuse-manual-start is refused with the dependency-only error if the unit does not
  support reload, or if it does and reload-or-start collapses to start for it; if the unit
  supports reload and reload-or-start does not collapse to start, the request is handed to
  the manager as a reload-or-start job. A try-restart request with \<open>reload_if_possible\<close>
  for a unit that supports reload is handed to the manager as a try-reload job. Without
  \<open>reload_if_possible\<close> both are refused.
\<close>

theorem queue_job_downgrade_before_refusal:
  assumes "mac_selinux_unit_access_check env u (job_type_to_access_method env JOB_RESTART) = None"
      and "mac_selinux_unit_access_check env u (job_type_to_access_method env JOB_TRY_RESTART) = None"
      and "refuse_manual_start u"
  shows "bus_unit_queue_job env u JOB_RESTART mode True =
           (if unit_can_reload env u \<and> job_type_collapse env JOB_RELOAD_OR_START u \<noteq> JOB_START
            then add_job_and_reply env u JOB_RELOAD_OR_START mode
            else Inl (only_by_dependency u)) \<and>
         bus_unit_queue_job env u JOB_TRY_RESTART mode True =
           (if unit_can_reload env u then add_job_and_reply env u JOB_TRY_RELOAD mode
            else Inl (only_by_dependency u)) \<and>
         bus_unit_queue_job env u JOB_RESTART mode False = Inl (only_by_dependency u) \<and>
         bus_unit_queue_job env u JOB_TRY_RESTART mode False = Inl (only_by_dependency u)"
  using assms by (simp add: bus_unit_queue_job_def)

theorem queue_job_downgrade_before_refusal_witness:
  "refuse_manual_start (unit0\<lparr>refuse_manual_start := True\<rparr>) \<and>
   bus_unit_queue_job env0 (unit0\<lparr>refuse_manual_start := True\<rparr>) JOB_RESTART 0 True =
     add_job_and_reply env0 (unit0\<lparr>refuse_manual_start := True\<rparr>) JOB_RELOAD_OR_START 0 \<and>
   bus_unit_queue_job (env0\<lparr>unit_can_reload := (\<lambda>u. False)\<rparr>)
       (unit0\<lparr>refuse_manual_start := True\<rparr>) JOB_RESTART 0 True =
     Inl (only_by_dependency (unit0\<lparr>refuse_manual_start := True\<rparr>))"
proof -
  let ?u = "unit0\<lparr>refuse_manual_start := True\<rparr>"
  let ?e = "env0\<lparr>unit_can_reload := (\<lambda>u. False)\<rparr>"
  have a: "mac_selinux_unit_access_check env0 ?u (job_type_to_access_method env0 JOB_RESTART) = None"
          "mac_selinux_unit_access_check env0 ?u (job_type_to_access_method env0 JOB_TRY_RESTART) = None"
          "mac_selinux_unit_access_check ?e ?u (job_type_to_access_method ?e JOB_RESTART) = None"
          "mac_selinux_unit_access_check ?e ?u (job_type_to_access_method ?e JOB_TRY_RESTART) = None"
    by (simp_all add: env0_def)
  have r: "refuse_manual_start ?u" by simp
  have c: "unit_can_reload env0 ?u" "job_type_collapse env0 JOB_RELOAD_OR_START ?u \<noteq> JOB_START"
          "\<not> unit_can_reload ?e ?u"
    by (simp_all add: env0_def)
  from queue_job_downgrade_before_refusal [OF a(1) a(2) r, of 0]
       queue_job_downgrade_before_refusal [OF a(3) a(4) r, of 0] r c
  show ?thesis by simp
qed

subsection \<open>The walk of a cgroup that has gone\<close>

text \<open>
  C5. The unit's cgroup \<open>/a\<close> has the process 5 and one subgroup \<open>b\<close>, which is removed
  before the walk reaches it: \<open>cg_enumerate_processes\<close> returns \<open>-ENOENT\<close> for it. The
  code compares that result with \<open>ENOENT\<close>, so the group is not taken as empty and the
  whole listing fails with \<open>-ENOENT\<close>. When it is \<open>cg_enumerate_subgroups\<close> that returns
  \<open>-ENOENT\<close>, the result is compared with \<open>-ENOENT\<close> and the listing succeeds.
\<close>

theorem get_processes_enoent_is_fatal:
  "bus_unit_method_get_processes
     (env0\<lparr>cgroup_at := (\<lambda>p. CGroup 0 [5] 0 0 [(''b'', CGroup (- ENOENT) [] 0 0 [] 0)] 0)\<rparr>)
     unit0 = Inl (Errno (- ENOENT)) \<and>
   bus_unit_method_get_processes
     (env0\<lparr>cgroup_at := (\<lambda>p. CGroup 0 [5] 0 0 [(''b'', CGroup 0 [] 0 (- ENOENT) [] 0)] 0)\<rparr>)
     unit0 = Inr [(''/a'', 5, [])]"
  by (simp add: bus_unit_method_get_processes_def env0_def unit0_def append_process_def
        strempty_def ENOENT_def)

subsection \<open>Attaching to a unit without delegation, or to an inactive unit\<close>

text \<open>
  C6 as stated fails: for a unit without delegation the error of \<open>AttachProcesses\<close> is of
  the class \<open>SD_BUS_ERROR_INVALID_ARGS\<close>, the class that the claim sets apart.
\<close>

theorem attach_not_delegated_invalid_args:
  "bus_unit_method_attach_processes (env0\<lparr>unit_cgroup_delegate := (\<lambda>u. False)\<rparr>) unit0 [] [4711] =
     (Inl (BusError SD_BUS_ERROR_INVALID_ARGS
             ''Process migration not available on non-delegated units.'' []), [])"
  by (simp add: bus_unit_method_attach_processes_def env0_def empty_to_null_def)

text \<open>
  C6, amended. For a unit that does not support delegation, or whose active state is
  inactive or failed, \<open>AttachProcesses\<close> fails whatever PIDs are supplied, and nothing
  is migrated: the result is that of the call with no PID at all. Once the access check
  has passed, the error is of the class \<open>SD_BUS_ERROR_INVALID_ARGS\<close>, the class of the
  error for a malformed path.
\<close>

theorem attach_unavailable_invalid_args:
  assumes "\<not> unit_cgroup_delegate env u \<or> UNIT_IS_INACTIVE_OR_FAILED (unit_active_state env u)"
  shows "(\<exists>e. bus_unit_method_attach_processes env u path upids = (Inl e, [])) \<and>
         bus_unit_method_attach_processes env u path upids =
           bus_unit_method_attach_processes env u path [] \<and>
         (mac_selinux_unit_access_check env u ''start'' = None \<longrightarrow>
            (\<exists>fmt args. bus_unit_method_attach_processes env u path upids =
               (Inl (BusError SD_BUS_ERROR_INVALID_ARGS fmt args), [])))"
  using assms by (auto simp: bus_unit_method_attach_processes_def Let_def split: option.splits)

theorem attach_unavailable_invalid_args_witness:
  "UNIT_IS_INACTIVE_OR_FAILED (unit_active_state (env0\<lparr>unit_active_state := (\<lambda>u. UNIT_FAILED)\<rparr>) unit0) \<and>
   mac_selinux_unit_access_check (env0\<lparr>unit_active_state := (\<lambda>u. UNIT_FAILED)\<rparr>) unit0 ''start'' = None \<and>
   (\<exists>fmt args. bus_unit_method_attach_processes (env0\<lparr>unit_active_state := (\<lambda>u. UNIT_FAILED)\<rparr>)
        unit0 ''/x'' [4711, 4712] = (Inl (BusError SD_BUS_ERROR_INVALID_ARGS fmt args), []))"
proof -
  let ?e = "env0\<lparr>unit_active_state := (\<lambda>u. UNIT_FAILED)\<rparr>"
  have i: "UNIT_IS_INACTIVE_OR_FAILED (unit_active_state ?e unit0)"
    by (simp add: UNIT_IS_INACTIVE_OR_FAILED_def)
  then have h: "\<not> unit_cgroup_delegate ?e unit0 \<or> UNIT_IS_INACTIVE_OR_FAILED (unit_active_state ?e unit0)"
    by (rule disjI2)
  have a: "mac_selinux_unit_access_check ?e unit0 ''start'' = None"
    by (simp add: env0_def)
  from attach_unavailable_invalid_args [OF h, of "''/x''" "[4711, 4712]"] a i
  show ?thesis by blast
qed

subsection \<open>No PID is listed twice\<close>

lemma append_process_inv: "walk_inv w \<Longrightarrow> walk_inv (snd (append_process env p pid w))"
  by (cases w)
     (auto simp: walk_inv_def reply_pids_def append_process_def Let_def
           split: option.splits prod.splits)

lemma append_pids_inv: "walk_inv w \<Longrightarrow> walk_inv (snd (append_pids env p ps e w))"
proof (induction ps arbitrary: w)
  case Nil
  then show ?case by simp
next
  case (Cons pid ps)
  have "walk_inv (snd (append_process env (Some p) pid w))"
    using Cons.prems by (rule append_process_inv)
  then show ?case using Cons by (auto split: prod.splits)
qed

lemma append_cgroup_inv:
  "walk_inv w \<Longrightarrow> walk_inv (snd (append_cgroup env p c w))"
  "walk_inv w \<Longrightarrow> walk_inv (snd (append_subgroups env p subs e w))"
proof (induction env p c w and env p subs e w rule: append_cgroup_append_subgroups.induct)
  case (1 env p r1 ps e1 r2 subs e2 w)
  have "walk_inv (snd (append_pids env p ps e1 w))"
    using "1.prems" by (rule append_pids_inv)
  then show ?case using "1.IH" "1.prems" by (auto split: prod.splits)
next
  case (2 env p e w)
  then show ?case by simp
next
  case (3 env p g c rest e w)
  then show ?case by (auto split: prod.splits)
qed

lemma append_process_lookup:
  "lookup_inv env w \<Longrightarrow> lookup_inv env (snd (append_process env p pid w))"
  by (cases w)
     (auto simp: lookup_inv_def reply_pids_def append_process_def Let_def ESRCH_def
           split: option.splits prod.splits)

lemma append_pids_lookup:
  "lookup_inv env w \<Longrightarrow> lookup_inv env (snd (append_pids env p ps e w))"
proof (induction ps arbitrary: w)
  case Nil
  then show ?case by simp
next
  case (Cons pid ps)
  have "lookup_inv env (snd (append_process env (Some p) pid w))"
    using Cons.prems by (rule append_process_lookup)
  then show ?case using Cons by (auto split: prod.splits)
qed

lemma append_cgroup_lookup:
  "lookup_inv env w \<Longrightarrow> lookup_inv env (snd (append_cgroup env p c w))"
  "lookup_inv env w \<Longrightarrow> lookup_inv env (snd (append_subgroups env p subs e w))"
proof (induction env p c w and env p subs e w rule: append_cgroup_append_subgroups.induct)
  case (1 env p r1 ps e1 r2 subs e2 w)
  have "lookup_inv env (snd (append_pids env p ps e1 w))"
    using "1.prems" by (rule append_pids_lookup)
  then show ?case using "1.IH" "1.prems" by (auto split: prod.splits)
next
  case (2 env p e w)
  then show ?case by simp
next
  case (3 env p g c rest e w)
  then show ?case by (auto split: prod.splits)
qed

lemma append_process_seen:
  "pid \<in> snd (snd (append_process env p pid w)) \<and>
   snd w \<subseteq> snd (snd (append_process env p pid' w))"
  by (cases w) (auto simp: append_process_def Let_def split: option.splits prod.splits)

text \<open>
  C7. The reply of \<open>GetProcesses\<close> never has the same PID twice: the set of the PIDs
  seen is shared by the walk of the cgroup and by the appending of the main and the
  control PID. A main or control PID whose cgroup path can be looked up is in the reply,
  whether the walk has met it or not; so it is listed exactly once.
\<close>

theorem get_processes_distinct:
  "bus_unit_method_get_processes env u = Inr reply \<Longrightarrow>
   distinct (reply_pids reply) \<and>
   (0 < sint (unit_main_pid env u) \<and> 0 \<le> fst (cg_pid_get_path env (unit_main_pid env u)) \<longrightarrow>
      unit_main_pid env u \<in> set (reply_pids reply)) \<and>
   (0 < sint (unit_control_pid env u) \<and>
    0 \<le> fst (cg_pid_get_path env (unit_control_pid env u)) \<longrightarrow>
      unit_control_pid env u \<in> set (reply_pids reply))"
proof -
  assume a: "bus_unit_method_get_processes env u = Inr reply"
  let ?w0 = "([], {}) :: walk"
  let ?m = "unit_main_pid env u"
  let ?c = "unit_control_pid env u"
  have i0: "walk_inv ?w0" by (simp add: walk_inv_def reply_pids_def)
  have k0: "lookup_inv env ?w0" by (simp add: lookup_inv_def)
  define x1 where "x1 = (case cgroup_path u of
                   None \<Rightarrow> (0, ?w0)
                 | Some p \<Rightarrow> append_cgroup env p (cgroup_at env p) ?w0)"
  have i1: "walk_inv (snd x1)"
    using i0 append_cgroup_inv(1) [OF i0] by (simp add: x1_def split: option.splits)
  have k1: "lookup_inv env (snd x1)"
    using k0 append_cgroup_lookup(1) [OF k0] by (simp add: x1_def split: option.splits)
  define x2 where "x2 = (if 0 < sint ?m then append_process env None ?m (snd x1)
                        else (0, snd x1))"
  have i2: "walk_inv (snd x2)"
    using i1 append_process_inv [OF i1] by (simp add: x2_def)
  have k2: "lookup_inv env (snd x2)"
    using k1 append_process_lookup [OF k1] by (simp add: x2_def)
  have s2: "0 < sint ?m \<longrightarrow> ?m \<in> snd (snd x2)"
    using append_process_seen [of ?m env None "snd x1"] by (simp add: x2_def)
  define x3 where "x3 = (if 0 < sint ?c then append_process env None ?c (snd x2)
                        else (0, snd x2))"
  have i3: "walk_inv (snd x3)"
    using i2 append_process_inv [OF i2] by (simp add: x3_def)
  have k3: "lookup_inv env (snd x3)"
    using k2 append_process_lookup [OF k2] by (simp add: x3_def)
  have s3: "0 < sint ?c \<longrightarrow> ?c \<in> snd (snd x3)" "snd (snd x2) \<subseteq> snd (snd x3)"
    using append_process_seen [of ?c env None "snd x2" ?c] by (auto simp: x3_def)
  from a have r: "reply = fst (snd x3)"
    by (auto simp: bus_unit_method_get_processes_def x1_def x2_def x3_def
          split: option.splits prod.splits if_splits)
  have d: "distinct (reply_pids reply)" using i3 r by (simp add: walk_inv_def)
  have m: "?m \<in> set (reply_pids reply)"
    if "0 < sint ?m" "0 \<le> fst (cg_pid_get_path env ?m)"
  proof (rule ccontr)
    assume "?m \<notin> set (reply_pids reply)"
    moreover from that(1) s2 s3(2) have "?m \<in> snd (snd x3)" by blast
    ultimately have "fst (cg_pid_get_path env ?m) < 0"
      using k3 r by (simp add: lookup_inv_def)
    with that(2) show False by simp
  qed
  have c: "?c \<in> set (reply_pids reply)"
    if "0 < sint ?c" "0 \<le> fst (cg_pid_get_path env ?c)"
  proof (rule ccontr)
    assume "?c \<notin> set (reply_pids reply)"
    moreover from that(1) s3(1) have "?c \<in> snd (snd x3)" by blast
    ultimately have "fst (cg_pid_get_path env ?c) < 0"
      using k3 r by (simp add: lookup_inv_def)
    with that(2) show False by simp
  qed
  from d m c show ?thesis by blast
qed

theorem get_processes_distinct_witness:
  "bus_unit_method_get_processes
     (env0\<lparr>cgroup_at := (\<lambda>p. CGroup 0 [5, 6] 0 0 [(''b'', CGroup 0 [6, 7] 0 0 [] 0)] 0),
           unit_main_pid := (\<lambda>u. 5), unit_control_pid := (\<lambda>u. 9)\<rparr>) unit0 =
     Inr [(''/a'', 5, []), (''/a'', 6, []), (''/a/b'', 7, []), (''/b'', 9, [])] \<and>
   distinct (reply_pids [(''/a'', 5, []), (''/a'', 6, []), (''/a/b'', 7, []), (''/b'', 9, [])]) \<and>
   (5 :: pid_t) \<in> set (reply_pids [(''/a'', 5, []), (''/a'', 6, []), (''/a/b'', 7, []), (''/b'', 9, [])])"
proof -
  let ?e = "env0\<lparr>cgroup_at := (\<lambda>p. CGroup 0 [5, 6] 0 0 [(''b'', CGroup 0 [6, 7] 0 0 [] 0)] 0),
           unit_main_pid := (\<lambda>u. 5), unit_control_pid := (\<lambda>u. 9)\<rparr>"
  have r: "bus_unit_method_get_processes ?e unit0 =
     Inr [(''/a'', 5, []), (''/a'', 6, []), (''/a/b'', 7, []), (''/b'', 9, [])]"
    by (simp add: bus_unit_method_get_processes_def env0_def unit0_def append_process_def
          strempty_def ENOENT_def ESRCH_def)
  have p: "0 < sint (unit_main_pid ?e unit0)" "0 \<le> fst (cg_pid_get_path ?e (unit_main_pid ?e unit0))"
    by (simp_all add: env0_def)
  have u: "unit_main_pid ?e unit0 = 5" by simp
  from get_processes_distinct [OF r] p u r show ?thesis by simp
qed

subsection \<open>The ownership gate of AttachProcesses\<close>

lemma attach_loop_append:
  "attach_loop env u cr (pre @ rest) P =
     (case attach_loop env u cr pre P of
        Inl e \<Rightarrow> Inl e
      | Inr Q \<Rightarrow> attach_loop env u cr rest Q)"
  by (induction pre arbitrary: P) (auto split: sum.splits option.splits prod.splits)

lemma attach_loop_success:
  assumes "sd_bus_creds_get_euid cr = Inr s" and "s \<noteq> 0" and "s \<noteq> getuid env"
  shows "attach_loop env u cr upids P = Inr Q \<Longrightarrow>
         Q = P \<union> {pid. \<exists>upid \<in> set upids. requested_pid cr upid = Inr pid} \<and>
         (\<forall>upid \<in> set upids. \<exists>pid. requested_pid cr upid = Inr pid) \<and>
         (\<forall>pid \<in> Q - P. unit_pid_attachable env u pid = None \<and> owner_matches env u s pid)"
proof (induction upids arbitrary: P)
  case Nil
  then show ?case by simp
next
  case (Cons upid rest)
  from Cons.prems obtain pid where pid: "requested_pid cr upid = Inr pid"
    by (auto split: sum.splits)
  show ?case
  proof (cases "pid \<in> P")
    case True
    with Cons.prems pid have "attach_loop env u cr rest P = Inr Q" by simp
    from Cons.IH [OF this] True pid show ?thesis by auto
  next
    case False
    with Cons.prems pid assms
    have rest: "attach_loop env u cr rest (insert pid P) = Inr Q"
     and ok: "unit_pid_attachable env u pid = None" "owner_matches env u s pid"
      by (auto simp: owner_matches_def split: option.splits prod.splits if_splits)
    from Cons.IH [OF rest] ok pid show ?thesis by auto
  qed
qed

lemma attach_loop_all_pass:
  assumes "sd_bus_creds_get_euid cr = Inr s"
  shows "\<forall>upid \<in> set upids. \<exists>pid. requested_pid cr upid = Inr pid \<and>
            unit_pid_attachable env u pid = None \<and> owner_matches env u s pid \<Longrightarrow>
         \<exists>Q. attach_loop env u cr upids P = Inr Q"
proof (induction upids arbitrary: P)
  case Nil
  then show ?case by simp
next
  case (Cons upid rest)
  from Cons.prems obtain pid where pid: "requested_pid cr upid = Inr pid"
    "unit_pid_attachable env u pid = None" "owner_matches env u s pid" by auto
  from Cons.prems have r: "\<forall>upid \<in> set rest. \<exists>pid. requested_pid cr upid = Inr pid \<and>
            unit_pid_attachable env u pid = None \<and> owner_matches env u s pid" by simp
  from Cons.IH [OF r, of P] Cons.IH [OF r, of "insert pid P"] pid assms
  show ?case by (auto simp: owner_matches_def split: prod.splits)
qed

lemma attach_loop_mismatch:
  assumes "sd_bus_creds_get_euid cr = Inr s" and "s \<noteq> 0" and "s \<noteq> getuid env"
      and "requested_pid cr upid = Inr pid" and "pid \<notin> P"
      and "unit_pid_attachable env u pid = None" and "owner_mismatch env u s pid"
  shows "attach_loop env u cr (upid # post) P = Inl (ownership_denied env s pid)"
  using assms
  by (auto simp: owner_mismatch_def ownership_denied_def split: prod.splits)

lemma attach_migrates_after_validation:
  "sd_bus_query_sender_creds env = Inr cr \<Longrightarrow>
   snd (bus_unit_method_attach_processes env u path upids) = [] \<or>
   (\<exists>P. attach_loop env u cr upids {} = Inr P \<and>
        snd (bus_unit_method_attach_processes env u path upids) = [(P, empty_to_null path)])"
  by (auto simp: bus_unit_method_attach_processes_def Let_def split: option.splits sum.splits)

lemma attach_failure_shape:
  "sd_bus_query_sender_creds env = Inr cr \<Longrightarrow>
   (\<exists>e. bus_unit_method_attach_processes env u path upids = (Inl e, [])) \<or>
   (\<exists>P. attach_loop env u cr upids {} = Inr P)"
  by (auto simp: bus_unit_method_attach_processes_def Let_def split: option.splits sum.splits)

lemma attach_success_loop:
  "sd_bus_query_sender_creds env = Inr cr \<Longrightarrow>
   fst (bus_unit_method_attach_processes env u path upids) = Inr () \<Longrightarrow>
   \<exists>P. attach_loop env u cr upids {} = Inr P"
  by (auto simp: bus_unit_method_attach_processes_def Let_def
        split: option.splits sum.splits if_splits)

lemma attach_admitted_result:
  "sd_bus_query_sender_creds env = Inr cr \<Longrightarrow> attach_admitted env u path \<Longrightarrow>
   attach_loop env u cr upids {} = Inl e \<Longrightarrow>
   bus_unit_method_attach_processes env u path upids = (Inl e, [])"
  by (auto simp: bus_unit_method_attach_processes_def attach_admitted_def Let_def
        empty_to_null_def)

lemma matches_not_mismatch: "owner_matches env u s pid \<Longrightarrow> \<not> owner_mismatch env u s pid"
  by (auto simp: owner_matches_def owner_mismatch_def split: prod.splits)

lemma attach_gate:
  assumes "sd_bus_query_sender_creds env = Inr cr"
      and "sd_bus_creds_get_euid cr = Inr s" and "s \<noteq> 0" and "s \<noteq> getuid env"
  shows "(fst (bus_unit_method_attach_processes env u path upids) = Inr () \<longrightarrow>
            (\<forall>upid \<in> set upids. \<exists>pid. requested_pid cr upid = Inr pid \<and>
                unit_pid_attachable env u pid = None \<and> owner_matches env u s pid)) \<and>
         ((\<exists>upid \<in> set upids. \<exists>pid. requested_pid cr upid = Inr pid \<and>
                owner_mismatch env u s pid) \<longrightarrow>
            (\<exists>e. bus_unit_method_attach_processes env u path upids = (Inl e, []))) \<and>
         (\<forall>pre upid post pid.
            upids = pre @ upid # post \<and>
            mac_selinux_unit_access_check env u ''start'' = None \<and>
            (path = [] \<or> (path_is_absolute env path \<and> path_is_normalized env path)) \<and>
            unit_cgroup_delegate env u \<and>
            unit_active_state env u \<noteq> UNIT_INACTIVE \<and>
            unit_active_state env u \<noteq> UNIT_FAILED \<and>
            (\<forall>x \<in> set pre. \<exists>q. requested_pid cr x = Inr q \<and>
                unit_pid_attachable env u q = None \<and> owner_matches env u s q) \<and>
            requested_pid cr upid = Inr pid \<and>
            unit_pid_attachable env u pid = None \<and> owner_mismatch env u s pid \<longrightarrow>
            bus_unit_method_attach_processes env u path upids =
              (Inl (ownership_denied env s pid), [])) \<and>
         (snd (bus_unit_method_attach_processes env u path upids) = [] \<or>
          ((\<forall>upid \<in> set upids. \<exists>pid. requested_pid cr upid = Inr pid \<and>
                unit_pid_attachable env u pid = None \<and> owner_matches env u s pid) \<and>
           snd (bus_unit_method_attach_processes env u path upids) =
             [({pid. \<exists>upid \<in> set upids. requested_pid cr upid = Inr pid}, empty_to_null path)]))"
proof -
  note nonpriv = assms(2-4)
  have all_match: "(\<forall>upid \<in> set upids. \<exists>pid. requested_pid cr upid = Inr pid \<and>
                      unit_pid_attachable env u pid = None \<and> owner_matches env u s pid) \<and>
                   P = {pid. \<exists>upid \<in> set upids. requested_pid cr upid = Inr pid}"
    if "attach_loop env u cr upids {} = Inr P" for P
    using attach_loop_success [OF nonpriv that] by fastforce
  have a: "fst (bus_unit_method_attach_processes env u path upids) = Inr () \<longrightarrow>
            (\<forall>upid \<in> set upids. \<exists>pid. requested_pid cr upid = Inr pid \<and>
                unit_pid_attachable env u pid = None \<and> owner_matches env u s pid)"
    using attach_success_loop [OF assms(1)] all_match by blast
  have b: "(\<exists>upid \<in> set upids. \<exists>pid. requested_pid cr upid = Inr pid \<and>
                owner_mismatch env u s pid) \<longrightarrow>
            (\<exists>e. bus_unit_method_attach_processes env u path upids = (Inl e, []))"
  proof
    assume "\<exists>upid \<in> set upids. \<exists>pid. requested_pid cr upid = Inr pid \<and>
                owner_mismatch env u s pid"
    then obtain upid pid where m: "upid \<in> set upids" "requested_pid cr upid = Inr pid"
        "owner_mismatch env u s pid" by blast
    have "\<not> (\<exists>P. attach_loop env u cr upids {} = Inr P)"
    proof
      assume "\<exists>P. attach_loop env u cr upids {} = Inr P"
      then obtain P where "attach_loop env u cr upids {} = Inr P" ..
      from all_match [OF this] m(1,2) have "owner_matches env u s pid" by fastforce
      with m(3) show False by (simp add: matches_not_mismatch)
    qed
    with attach_failure_shape [OF assms(1), of u path upids]
    show "\<exists>e. bus_unit_method_attach_processes env u path upids = (Inl e, [])" by blast
  qed
  have c: "bus_unit_method_attach_processes env u path upids =
              (Inl (ownership_denied env s pid), [])"
    if h: "upids = pre @ upid # post" "attach_admitted env u path"
          "\<forall>x \<in> set pre. \<exists>q. requested_pid cr x = Inr q \<and>
                unit_pid_attachable env u q = None \<and> owner_matches env u s q"
          "requested_pid cr upid = Inr pid"
          "unit_pid_attachable env u pid = None" "owner_mismatch env u s pid"
    for pre upid post pid
  proof -
    from attach_loop_all_pass [OF assms(2) h(3), of "{}"]
    obtain P where P: "attach_loop env u cr pre {} = Inr P" ..
    from attach_loop_success [OF nonpriv P]
    have "\<forall>q \<in> P. owner_matches env u s q" by simp
    with h(6) have "pid \<notin> P" using matches_not_mismatch by blast
    from attach_loop_mismatch [OF nonpriv h(4) this h(5) h(6)]
    have "attach_loop env u cr (upid # post) P = Inl (ownership_denied env s pid)" .
    with h(1) P have "attach_loop env u cr upids {} = Inl (ownership_denied env s pid)"
      by (simp add: attach_loop_append)
    from attach_admitted_result [OF assms(1) h(2) this] show ?thesis .
  qed
  have d: "snd (bus_unit_method_attach_processes env u path upids) = [] \<or>
          ((\<forall>upid \<in> set upids. \<exists>pid. requested_pid cr upid = Inr pid \<and>
                unit_pid_attachable env u pid = None \<and> owner_matches env u s pid) \<and>
           snd (bus_unit_method_attach_processes env u path upids) =
             [({pid. \<exists>upid \<in> set upids. requested_pid cr upid = Inr pid}, empty_to_null path)])"
    using attach_migrates_after_validation [OF assms(1), of u path upids] all_match by blast
  have c': "bus_unit_method_attach_processes env u path upids =
              (Inl (ownership_denied env s pid), [])"
    if "upids = pre @ upid # post"
       "mac_selinux_unit_access_check env u ''start'' = None"
       "path = [] \<or> (path_is_absolute env path \<and> path_is_normalized env path)"
       "unit_cgroup_delegate env u"
       "unit_active_state env u \<noteq> UNIT_INACTIVE"
       "unit_active_state env u \<noteq> UNIT_FAILED"
       "\<forall>x \<in> set pre. \<exists>q. requested_pid cr x = Inr q \<and>
                unit_pid_attachable env u q = None \<and> owner_matches env u s q"
       "requested_pid cr upid = Inr pid"
       "unit_pid_attachable env u pid = None" "owner_mismatch env u s pid"
    for pre upid post pid
  proof -
    have "attach_admitted env u path"
      using that(2-6) by (simp add: attach_admitted_def UNIT_IS_INACTIVE_OR_FAILED_def)
    from c [OF that(1) this that(7-10)] show ?thesis .
  qed
  from a b c' d show ?thesis by blast
qed

text \<open>
  C2 as stated fails. The sender has the uid 1000, which is neither root nor the uid of
  the manager, and asks for PID 1, a process of root: the uid of the process differs from
  the sender's. The attachability check comes before the ownership check and refuses the
  PID, so the call returns the error of that check, not an access-denied error. The same
  happens when an earlier PID of the list is refused: the mismatch of PID 4712 is never
  looked at.
\<close>

theorem attach_mismatch_other_error:
  "sd_bus_query_sender_creds
     (env0\<lparr>unit_pid_attachable :=
              (\<lambda>u p. if p = 1 \<or> p = 4711
                      then Some (BusError SD_BUS_ERROR_INVALID_ARGS
                                   ''Process %i is a manager process, refusing.'' [ArgInt (sint p)])
                      else None),
           get_process_uid := (\<lambda>p. if p = 1 then (0, 0) else if p = 4712 then (0, 1001)
                                    else (0, 1000))\<rparr>) =
     Inr \<lparr>sd_bus_creds_get_pid = Inr 4242, sd_bus_creds_get_euid = Inr 1000\<rparr> \<and>
   getuid env0 = 0 \<and> ref_uid unit0 = 1000 \<and>
   bus_unit_method_attach_processes
     (env0\<lparr>unit_pid_attachable :=
              (\<lambda>u p. if p = 1 \<or> p = 4711
                      then Some (BusError SD_BUS_ERROR_INVALID_ARGS
                                   ''Process %i is a manager process, refusing.'' [ArgInt (sint p)])
                      else None),
           get_process_uid := (\<lambda>p. if p = 1 then (0, 0) else if p = 4712 then (0, 1001)
                                    else (0, 1000))\<rparr>)
     unit0 [] [1] =
     (Inl (BusError SD_BUS_ERROR_INVALID_ARGS
             ''Process %i is a manager process, refusing.'' [ArgInt 1]), []) \<and>
   bus_unit_method_attach_processes
     (env0\<lparr>unit_pid_attachable :=
              (\<lambda>u p. if p = 1 \<or> p = 4711
                      then Some (BusError SD_BUS_ERROR_INVALID_ARGS
                                   ''Process %i is a manager process, refusing.'' [ArgInt (sint p)])
                      else None),
           get_process_uid := (\<lambda>p. if p = 1 then (0, 0) else if p = 4712 then (0, 1001)
                                    else (0, 1000))\<rparr>)
     unit0 [] [4711, 4712] =
     (Inl (BusError SD_BUS_ERROR_INVALID_ARGS
             ''Process %i is a manager process, refusing.'' [ArgInt 4711]), [])"
  by (simp add: bus_unit_method_attach_processes_def env0_def unit0_def empty_to_null_def
        UNIT_IS_INACTIVE_OR_FAILED_def requested_pid_def)

text \<open>
  C2, amended. Let the sender of \<open>AttachProcesses\<close> have the effective uid \<open>s\<close>, neither
  root nor the uid the manager runs as: these two are the senders the code asks nothing
  of. A PID passes if it is attachable and the uid of its process can be read and is both
  \<open>s\<close> and the unit's \<open>ref_uid\<close>. Then
  \<^item> the call succeeds only if every requested PID (0 being the sender's own process)
    passes;
  \<^item> if some requested PID has a process uid that differs from \<open>s\<close> or from the unit's
    \<open>ref_uid\<close>, the call fails and \<open>unit_attach_pids_to_cgroup\<close> is not called;
  \<^item> the error is the access-denied error that names the PID when the ownership check is
    what ends the call: the checks before the PIDs have passed, the PIDs before this one
    pass, and this one is attachable and has a process uid that differs from one of the
    two. Otherwise the call returns the error of the check that failed first;
  \<^item> \<open>unit_attach_pids_to_cgroup\<close> is called at most once, only if every requested PID
    passes, and then with the set of all of them.
\<close>

theorem attach_ownership_gate:
  assumes "sd_bus_query_sender_creds env = Inr cr"
      and "sd_bus_creds_get_euid cr = Inr s" and "s \<noteq> 0" and "s \<noteq> getuid env"
  shows "(fst (bus_unit_method_attach_processes env u path upids) = Inr () \<longrightarrow>
            (\<forall>upid \<in> set upids. \<exists>pid.
                (if upid = 0 then sd_bus_creds_get_pid cr else Inr upid) = Inr pid \<and>
                unit_pid_attachable env u pid = None \<and>
                0 \<le> fst (get_process_uid env pid) \<and>
                snd (get_process_uid env pid) = s \<and>
                snd (get_process_uid env pid) = ref_uid u)) \<and>
         ((\<exists>upid \<in> set upids. \<exists>pid.
                (if upid = 0 then sd_bus_creds_get_pid cr else Inr upid) = Inr pid \<and>
                0 \<le> fst (get_process_uid env pid) \<and>
                (snd (get_process_uid env pid) \<noteq> s \<or>
                 snd (get_process_uid env pid) \<noteq> ref_uid u)) \<longrightarrow>
            (\<exists>e. bus_unit_method_attach_processes env u path upids = (Inl e, []))) \<and>
         (\<forall>pre upid post pid.
            upids = pre @ upid # post \<and>
            mac_selinux_unit_access_check env u ''start'' = None \<and>
            (path = [] \<or> (path_is_absolute env path \<and> path_is_normalized env path)) \<and>
            unit_cgroup_delegate env u \<and>
            unit_active_state env u \<noteq> UNIT_INACTIVE \<and>
            unit_active_state env u \<noteq> UNIT_FAILED \<and>
            (\<forall>x \<in> set pre. \<exists>q.
                (if x = 0 then sd_bus_creds_get_pid cr else Inr x) = Inr q \<and>
                unit_pid_attachable env u q = None \<and>
                0 \<le> fst (get_process_uid env q) \<and>
                snd (get_process_uid env q) = s \<and>
                snd (get_process_uid env q) = ref_uid u) \<and>
            (if upid = 0 then sd_bus_creds_get_pid cr else Inr upid) = Inr pid \<and>
            unit_pid_attachable env u pid = None \<and>
            0 \<le> fst (get_process_uid env pid) \<and>
            (snd (get_process_uid env pid) \<noteq> s \<or>
             snd (get_process_uid env pid) \<noteq> ref_uid u) \<longrightarrow>
            bus_unit_method_attach_processes env u path upids =
              (Inl (BusError SD_BUS_ERROR_ACCESS_DENIED
                      (if snd (get_process_uid env pid) \<noteq> s
                       then ''Process %i not owned by client's UID. Refusing.''
                       else ''Process %i not owned by target unit's UID. Refusing.'')
                      [ArgInt (sint pid)]), [])) \<and>
         (snd (bus_unit_method_attach_processes env u path upids) = [] \<or>
          ((\<forall>upid \<in> set upids. \<exists>pid.
                (if upid = 0 then sd_bus_creds_get_pid cr else Inr upid) = Inr pid \<and>
                unit_pid_attachable env u pid = None \<and>
                0 \<le> fst (get_process_uid env pid) \<and>
                snd (get_process_uid env pid) = s \<and>
                snd (get_process_uid env pid) = ref_uid u) \<and>
           snd (bus_unit_method_attach_processes env u path upids) =
             [({pid. \<exists>upid \<in> set upids.
                     (if upid = 0 then sd_bus_creds_get_pid cr else Inr upid) = Inr pid},
               if path = [] then None else Some path)]))"
proof -
  have m: "owner_matches env u s pid =
             (0 \<le> fst (get_process_uid env pid) \<and> snd (get_process_uid env pid) = s \<and>
              snd (get_process_uid env pid) = ref_uid u)" for pid
    by (auto simp: owner_matches_def split: prod.splits)
  have mm: "owner_mismatch env u s pid =
             (0 \<le> fst (get_process_uid env pid) \<and>
              (snd (get_process_uid env pid) \<noteq> s \<or>
               snd (get_process_uid env pid) \<noteq> ref_uid u))" for pid
    by (auto simp: owner_mismatch_def split: prod.splits)
  have den: "ownership_denied env s pid =
               BusError SD_BUS_ERROR_ACCESS_DENIED
                      (if snd (get_process_uid env pid) \<noteq> s
                       then ''Process %i not owned by client's UID. Refusing.''
                       else ''Process %i not owned by target unit's UID. Refusing.'')
                      [ArgInt (sint pid)]" for pid
    by (simp add: ownership_denied_def not_owned_by_client_def not_owned_by_unit_def PID_FMT_def)
  have rq: "requested_pid cr x = (if x = 0 then sd_bus_creds_get_pid cr else Inr x)" for x
    by (simp add: requested_pid_def)
  have nul: "empty_to_null path = (if path = [] then None else Some path)"
    by (simp add: empty_to_null_def)
  show ?thesis
    using attach_gate [OF assms, of u path upids]
    unfolding m mm den rq nul .
qed

theorem attach_ownership_gate_witness:
  "sd_bus_query_sender_creds (env0\<lparr>get_process_uid := (\<lambda>p. if p = 4712 then (0, 1001) else (0, 1000))\<rparr>) =
     Inr \<lparr>sd_bus_creds_get_pid = Inr 4242, sd_bus_creds_get_euid = Inr 1000\<rparr> \<and>
   (1000 :: uid_t) \<noteq> 0 \<and>
   (1000 :: uid_t) \<noteq> getuid (env0\<lparr>get_process_uid := (\<lambda>p. if p = 4712 then (0, 1001) else (0, 1000))\<rparr>) \<and>
   ref_uid unit0 = 1000 \<and>
   bus_unit_method_attach_processes
     (env0\<lparr>get_process_uid := (\<lambda>p. if p = 4712 then (0, 1001) else (0, 1000))\<rparr>)
     unit0 [] [4711, 4712, 4713] =
     (Inl (BusError SD_BUS_ERROR_ACCESS_DENIED
             ''Process %i not owned by client's UID. Refusing.'' [ArgInt 4712]), [])"
proof -
  let ?e = "env0\<lparr>get_process_uid := (\<lambda>p. if p = 4712 then (0, 1001) else (0, 1000))\<rparr>"
  let ?cr = "\<lparr>sd_bus_creds_get_pid = Inr 4242, sd_bus_creds_get_euid = Inr (1000 :: uid_t)\<rparr>"
  have h1: "sd_bus_query_sender_creds ?e = Inr ?cr" by (simp add: env0_def)
  have h2: "sd_bus_creds_get_euid ?cr = Inr 1000" by simp
  have h3: "(1000 :: uid_t) \<noteq> 0" by simp
  have h4: "(1000 :: uid_t) \<noteq> getuid ?e" by (simp add: env0_def)
  have r: "ref_uid unit0 = 1000" by (simp add: unit0_def)
  have hyp: "[4711, 4712, 4713] = [4711] @ 4712 # [4713 :: 32 word] \<and>
            mac_selinux_unit_access_check ?e unit0 ''start'' = None \<and>
            ([] = ([] :: string) \<or> (path_is_absolute ?e [] \<and> path_is_normalized ?e [])) \<and>
            unit_cgroup_delegate ?e unit0 \<and>
            unit_active_state ?e unit0 \<noteq> UNIT_INACTIVE \<and>
            unit_active_state ?e unit0 \<noteq> UNIT_FAILED \<and>
            (\<forall>x \<in> set [4711 :: 32 word]. \<exists>q.
                (if x = 0 then sd_bus_creds_get_pid ?cr else Inr x) = Inr q \<and>
                unit_pid_attachable ?e unit0 q = None \<and>
                0 \<le> fst (get_process_uid ?e q) \<and>
                snd (get_process_uid ?e q) = 1000 \<and>
                snd (get_process_uid ?e q) = ref_uid unit0) \<and>
            (if (4712 :: 32 word) = 0 then sd_bus_creds_get_pid ?cr else Inr 4712) = Inr 4712 \<and>
            unit_pid_attachable ?e unit0 4712 = None \<and>
            0 \<le> fst (get_process_uid ?e 4712) \<and>
            (snd (get_process_uid ?e 4712) \<noteq> 1000 \<or>
             snd (get_process_uid ?e 4712) \<noteq> ref_uid unit0)"
    by (simp add: env0_def unit0_def)
  have msg: "(if snd (get_process_uid ?e 4712) \<noteq> 1000
              then ''Process %i not owned by client's UID. Refusing.''
              else ''Process %i not owned by target unit's UID. Refusing.'') =
             ''Process %i not owned by client's UID. Refusing.''"
    by simp
  have si: "sint (4712 :: 32 word) = 4712" by simp
  from attach_ownership_gate [OF h1 h2 h3 h4, of unit0 "[]" "[4711, 4712, 4713]"]
  have "\<forall>pre upid post pid.
            [4711, 4712, 4713] = pre @ upid # post \<and>
            mac_selinux_unit_access_check ?e unit0 ''start'' = None \<and>
            ([] = ([] :: string) \<or> (path_is_absolute ?e [] \<and> path_is_normalized ?e [])) \<and>
            unit_cgroup_delegate ?e unit0 \<and>
            unit_active_state ?e unit0 \<noteq> UNIT_INACTIVE \<and>
            unit_active_state ?e unit0 \<noteq> UNIT_FAILED \<and>
            (\<forall>x \<in> set pre. \<exists>q.
                (if x = 0 then sd_bus_creds_get_pid ?cr else Inr x) = Inr q \<and>
                unit_pid_attachable ?e unit0 q = None \<and>
                0 \<le> fst (get_process_uid ?e q) \<and>
                snd (get_process_uid ?e q) = 1000 \<and>
                snd (get_process_uid ?e q) = ref_uid unit0) \<and>
            (if upid = 0 then sd_bus_creds_get_pid ?cr else Inr upid) = Inr pid \<and>
            unit_pid_attachable ?e unit0 pid = None \<and>
            0 \<le> fst (get_process_uid ?e pid) \<and>
            (snd (get_process_uid ?e pid) \<noteq> 1000 \<or>
             snd (get_process_uid ?e pid) \<noteq> ref_uid unit0) \<longrightarrow>
            bus_unit_method_attach_processes ?e unit0 [] [4711, 4712, 4713] =
              (Inl (BusError SD_BUS_ERROR_ACCESS_DENIED
                      (if snd (get_process_uid ?e pid) \<noteq> 1000
                       then ''Process %i not owned by client's UID. Refusing.''
                       else ''Process %i not owned by target unit's UID. Refusing.'')
                      [ArgInt (sint pid)]), [])"
    by (rule conjunct1 [OF conjunct2 [OF conjunct2]])
  from this [rule_format, of "[4711]" 4712 "[4713]" 4712, OF hyp]
  have "bus_unit_method_attach_processes ?e unit0 [] [4711, 4712, 4713] =
              (Inl (BusError SD_BUS_ERROR_ACCESS_DENIED
                      ''Process %i not owned by client's UID. Refusing.'' [ArgInt 4712]), [])"
    unfolding msg si .
  with h1 h3 h4 r show ?thesis by (simp only: simp_thms)
qed

subsection \<open>Writing the conditions of a transient unit\<close>

lemma conditions_loop_commit:
  assumes "\<not> UNIT_WRITE_FLAGS_NOOP flags"
  shows "\<forall>e \<in> set cs. condition_entry_valid env True e \<Longrightarrow>
         \<exists>u'. conditions_loop env u name conditions_update True cs flags emp =
                 (Inr (emp \<and> cs = []), u') \<and>
               conditions u' = rev (map (entry_condition env True) cs) @ conditions u \<and>
               asserts u' = asserts u"
proof (induction cs arbitrary: u emp)
  case Nil
  then show ?case by simp
next
  case (Cons c cs)
  obtain type_name trig neg param where c: "c = (type_name, trig, neg, param)"
    by (cases c) auto
  let ?t = "condition_type_from_string env type_name"
  let ?cn = "entry_condition env True c"
  let ?u1 = "conditions_update (\<lambda>l. ?cn # l) u"
  let ?u' = "(if ?t \<noteq> CONDITION_NULL env then
                unit_write_settingf ?u1 (insert UNIT_ESCAPE_SPECIFIERS flags) name
                                ''%s=%s%s%s''
                                [ArgStr type_name, ArgStr (if trig then ''|'' else []),
                                 ArgStr (if neg then ''!'' else []), ArgStr param]
              else unit_write_settingf ?u1 flags name ''%s=%s%s''
                                [ArgStr type_name, ArgStr (if trig then ''|'' else []),
                                 ArgStr (yes_no (\<not> neg))])"
  from Cons.prems have v: "condition_entry_valid env True c"
    and vs: "\<forall>e \<in> set cs. condition_entry_valid env True e" by simp_all
  have step: "conditions_loop env u name conditions_update True (c # cs) flags emp =
              conditions_loop env ?u' name conditions_update True cs flags False"
    using v assms by (auto simp: c entry_type_def Let_def)
  have cu: "conditions ?u' = ?cn # conditions u" "asserts ?u' = asserts u"
    by (simp_all add: unit_write_settingf_def)
  from Cons.IH [OF vs, of ?u' False] obtain u'' where
    "conditions_loop env ?u' name conditions_update True cs flags False = (Inr False, u'')"
    "conditions u'' = rev (map (entry_condition env True) cs) @ conditions ?u'"
    "asserts u'' = asserts ?u'" by auto
  with step cu show ?case by simp
qed

lemma asserts_loop_commit:
  assumes "\<not> UNIT_WRITE_FLAGS_NOOP flags"
  shows "\<forall>e \<in> set cs. condition_entry_valid env False e \<Longrightarrow>
         \<exists>u'. conditions_loop env u name asserts_update False cs flags emp =
                 (Inr (emp \<and> cs = []), u') \<and>
               asserts u' = rev (map (entry_condition env False) cs) @ asserts u \<and>
               conditions u' = conditions u"
proof (induction cs arbitrary: u emp)
  case Nil
  then show ?case by simp
next
  case (Cons c cs)
  obtain type_name trig neg param where c: "c = (type_name, trig, neg, param)"
    by (cases c) auto
  let ?t = "assert_type_from_string env type_name"
  let ?cn = "entry_condition env False c"
  let ?u1 = "asserts_update (\<lambda>l. ?cn # l) u"
  let ?u' = "(if ?t \<noteq> CONDITION_NULL env then
                unit_write_settingf ?u1 (insert UNIT_ESCAPE_SPECIFIERS flags) name
                                ''%s=%s%s%s''
                                [ArgStr type_name, ArgStr (if trig then ''|'' else []),
                                 ArgStr (if neg then ''!'' else []), ArgStr param]
              else unit_write_settingf ?u1 flags name ''%s=%s%s''
                                [ArgStr type_name, ArgStr (if trig then ''|'' else []),
                                 ArgStr (yes_no (\<not> neg))])"
  from Cons.prems have v: "condition_entry_valid env False c"
    and vs: "\<forall>e \<in> set cs. condition_entry_valid env False e" by simp_all
  have step: "conditions_loop env u name asserts_update False (c # cs) flags emp =
              conditions_loop env ?u' name asserts_update False cs flags False"
    using v assms by (auto simp: c entry_type_def Let_def)
  have cu: "asserts ?u' = ?cn # asserts u" "conditions ?u' = conditions u"
    by (simp_all add: unit_write_settingf_def)
  from Cons.IH [OF vs, of ?u' False] obtain u'' where
    "conditions_loop env ?u' name asserts_update False cs flags False = (Inr False, u'')"
    "asserts u'' = rev (map (entry_condition env False) cs) @ asserts ?u'"
    "conditions u'' = conditions ?u'" by auto
  with step cu show ?case by simp
qed

lemma property_get_conditions_append:
  "property_get_conditions ts (xs @ ys) =
     property_get_conditions ts xs @ property_get_conditions ts ys"
  by (simp add: property_get_conditions_def)

lemma property_get_conditions_rev:
  "property_get_conditions ts (rev xs) = rev (property_get_conditions ts xs)"
  by (simp add: property_get_conditions_def rev_map)

text \<open>
  C3 as stated fails. A transient stub unit has the condition \<open>ConditionPathExists=/old\<close>;
  a commit of \<open>Conditions\<close> with the entries for \<open>/a\<close> and \<open>/b\<close>, in this order, leaves
  it with three conditions, exposed as \<open>/b\<close>, \<open>/a\<close>, \<open>/old\<close>: the previous list is kept
  and the new entries are exposed in the reverse of the order they were supplied in.
\<close>

theorem conditions_commit_prepends:
  "property_get_conditions (\<lambda>t. ''ConditionPathExists'')
     (conditions (snd (bus_unit_set_properties env0
        (unit0\<lparr>transient := True, load_state := UNIT_STUB,
               conditions := [condition_new 1 (Some ''/old'') False False]\<rparr>)
        [(''Conditions'', VConditions [(''ConditionPathExists'', False, False, ''/a''),
                                       (''ConditionPathExists'', False, False, ''/b'')])]
        {UNIT_RUNTIME} True))) =
   [(''ConditionPathExists'', False, False, ''/b'', 0),
    (''ConditionPathExists'', False, False, ''/a'', 0),
    (''ConditionPathExists'', False, False, ''/old'', 0)]"
  by (simp add: bus_unit_set_properties_def set_property_entry_def env0_def vtable0_def unit0_def
        bus_unit_set_transient_property_def bus_unit_set_transient_property_tail_def
        bus_set_transient_conditions_def UNIT_WRITE_FLAGS_NOOP_def unit_write_settingf_def
        condition_new_def property_get_conditions_def tristate_def strempty_def Let_def)

text \<open>
  C3, amended. On a commit (the flags are not a no-op) of \<open>Conditions\<close> or \<open>Asserts\<close>
  whose entries are all valid, the handler succeeds. If the array is not empty, every new
  entry is put in front of the list as it is, in the order of the array: the list is then
  the new entries in the reverse of the order they were supplied in, followed by the
  previous list, and it is exposed so. If the array is empty, the list is cleared.
\<close>

theorem conditions_commit_order:
  assumes "\<not> UNIT_WRITE_FLAGS_NOOP flags"
  shows "((\<forall>e \<in> set cs. condition_entry_valid env True e) \<longrightarrow>
            (\<exists>u'. bus_unit_set_transient_property env u ''Conditions'' (VConditions cs) flags =
                     (Inr 1, u') \<and>
                   conditions u' =
                     (if cs = [] then []
                      else rev (map (entry_condition env True) cs) @ conditions u) \<and>
                   property_get_conditions ts (conditions u') =
                     (if cs = [] then []
                      else rev (property_get_conditions ts (map (entry_condition env True) cs)) @
                           property_get_conditions ts (conditions u)))) \<and>
         ((\<forall>e \<in> set cs. condition_entry_valid env False e) \<longrightarrow>
            (\<exists>u'. bus_unit_set_transient_property env u ''Asserts'' (VConditions cs) flags =
                     (Inr 1, u') \<and>
                   asserts u' =
                     (if cs = [] then []
                      else rev (map (entry_condition env False) cs) @ asserts u) \<and>
                   property_get_conditions ts (asserts u') =
                     (if cs = [] then []
                      else rev (property_get_conditions ts (map (entry_condition env False) cs)) @
                           property_get_conditions ts (asserts u))))"
proof (intro conjI impI)
  assume v: "\<forall>e \<in> set cs. condition_entry_valid env True e"
  from conditions_loop_commit [OF assms v, of u "''Conditions''" True] obtain u1 where
    l: "conditions_loop env u ''Conditions'' conditions_update True cs flags True =
          (Inr (cs = []), u1)"
       "conditions u1 = rev (map (entry_condition env True) cs) @ conditions u" by auto
  let ?u' = "if cs = [] then unit_write_settingf (conditions_update (\<lambda>l. []) u1) flags
                               ''Conditions'' ''%sNull='' [ArgStr ''Condition'']
             else u1"
  have "bus_unit_set_transient_property env u ''Conditions'' (VConditions cs) flags = (Inr 1, ?u')"
    using l(1) assms
    by (simp add: bus_unit_set_transient_property_def bus_unit_set_transient_property_tail_def
          bus_set_transient_conditions_def)
  moreover have "conditions ?u' =
                   (if cs = [] then [] else rev (map (entry_condition env True) cs) @ conditions u)"
    using l(2) by (simp add: unit_write_settingf_def)
  ultimately show "\<exists>u'. bus_unit_set_transient_property env u ''Conditions'' (VConditions cs) flags =
                     (Inr 1, u') \<and>
                   conditions u' =
                     (if cs = [] then []
                      else rev (map (entry_condition env True) cs) @ conditions u) \<and>
                   property_get_conditions ts (conditions u') =
                     (if cs = [] then []
                      else rev (property_get_conditions ts (map (entry_condition env True) cs)) @
                           property_get_conditions ts (conditions u))"
    by (intro exI [of _ ?u'])
       (simp add: property_get_conditions_append property_get_conditions_rev,
        simp add: property_get_conditions_def)
next
  assume v: "\<forall>e \<in> set cs. condition_entry_valid env False e"
  from asserts_loop_commit [OF assms v, of u "''Asserts''" True] obtain u1 where
    l: "conditions_loop env u ''Asserts'' asserts_update False cs flags True =
          (Inr (cs = []), u1)"
       "asserts u1 = rev (map (entry_condition env False) cs) @ asserts u" by auto
  let ?u' = "if cs = [] then unit_write_settingf (asserts_update (\<lambda>l. []) u1) flags
                               ''Asserts'' ''%sNull='' [ArgStr ''Assert'']
             else u1"
  have "bus_unit_set_transient_property env u ''Asserts'' (VConditions cs) flags = (Inr 1, ?u')"
    using l(1) assms
    by (simp add: bus_unit_set_transient_property_def bus_unit_set_transient_property_tail_def
          bus_set_transient_conditions_def)
  moreover have "asserts ?u' =
                   (if cs = [] then [] else rev (map (entry_condition env False) cs) @ asserts u)"
    using l(2) by (simp add: unit_write_settingf_def)
  ultimately show "\<exists>u'. bus_unit_set_transient_property env u ''Asserts'' (VConditions cs) flags =
                     (Inr 1, u') \<and>
                   asserts u' =
                     (if cs = [] then []
                      else rev (map (entry_condition env False) cs) @ asserts u) \<and>
                   property_get_conditions ts (asserts u') =
                     (if cs = [] then []
                      else rev (property_get_conditions ts (map (entry_condition env False) cs)) @
                           property_get_conditions ts (asserts u))"
    by (intro exI [of _ ?u'])
       (simp add: property_get_conditions_append property_get_conditions_rev,
        simp add: property_get_conditions_def)
qed

theorem conditions_commit_order_witness:
  "\<not> UNIT_WRITE_FLAGS_NOOP {UNIT_RUNTIME} \<and>
   condition_entry_valid env0 True (''ConditionPathExists'', False, False, ''/a'') \<and>
   condition_entry_valid env0 True (''ConditionPathExists'', False, True, ''/b'') \<and>
   (\<exists>u'. bus_unit_set_transient_property env0
            (unit0\<lparr>conditions := [condition_new 1 (Some ''/old'') False False]\<rparr>)
            ''Conditions''
            (VConditions [(''ConditionPathExists'', False, False, ''/a''),
                          (''ConditionPathExists'', False, True, ''/b'')])
            {UNIT_RUNTIME} = (Inr 1, u') \<and>
          conditions u' =
            [condition_new 1 (Some ''/b'') False True, condition_new 1 (Some ''/a'') False False,
             condition_new 1 (Some ''/old'') False False])"
proof -
  let ?cs = "[(''ConditionPathExists'', False, False, ''/a''),
              (''ConditionPathExists'', False, True, ''/b'')]"
  let ?u = "unit0\<lparr>conditions := [condition_new 1 (Some ''/old'') False False]\<rparr>"
  have n: "\<not> UNIT_WRITE_FLAGS_NOOP {UNIT_RUNTIME}" by (simp add: UNIT_WRITE_FLAGS_NOOP_def)
  have v: "condition_entry_valid env0 True (''ConditionPathExists'', False, False, ''/a'')"
          "condition_entry_valid env0 True (''ConditionPathExists'', False, True, ''/b'')"
    by (simp_all add: entry_type_def env0_def)
  then have vs: "\<forall>e \<in> set ?cs. condition_entry_valid env0 True e" by simp
  have m: "rev (map (entry_condition env0 True) ?cs) @ conditions ?u =
           [condition_new 1 (Some ''/b'') False True, condition_new 1 (Some ''/a'') False False,
            condition_new 1 (Some ''/old'') False False]"
    by (simp add: entry_type_def env0_def)
  from conditions_commit_order [OF n, of ?cs env0 ?u]
  have "(\<forall>e \<in> set ?cs. condition_entry_valid env0 True e) \<longrightarrow>
            (\<exists>u'. bus_unit_set_transient_property env0 ?u ''Conditions'' (VConditions ?cs)
                     {UNIT_RUNTIME} = (Inr 1, u') \<and>
                   conditions u' =
                     (if ?cs = [] then []
                      else rev (map (entry_condition env0 True) ?cs) @ conditions ?u))"
    by blast
  with vs have "\<exists>u'. bus_unit_set_transient_property env0 ?u ''Conditions'' (VConditions ?cs)
                     {UNIT_RUNTIME} = (Inr 1, u') \<and>
                   conditions u' = rev (map (entry_condition env0 True) ?cs) @ conditions ?u"
    by simp
  with m n v show ?thesis by (simp only: simp_thms)
qed

subsection \<open>Validation before commit\<close>

lemma bus_set_transient_bool_noop:
  "bus_set_transient_bool u name p v f = (r, u') \<Longrightarrow> UNIT_WRITE_FLAGS_NOOP f \<Longrightarrow> u' = u"
  by (auto simp: bus_set_transient_bool_def split: bus_value.splits)

lemma bus_set_transient_string_noop:
  "bus_set_transient_string u name p v f = (r, u') \<Longrightarrow> UNIT_WRITE_FLAGS_NOOP f \<Longrightarrow> u' = u"
  by (auto simp: bus_set_transient_string_def split: bus_value.splits)

lemma bus_set_transient_path_noop:
  "bus_set_transient_path env u name p v f = (r, u') \<Longrightarrow> UNIT_WRITE_FLAGS_NOOP f \<Longrightarrow> u' = u"
  by (auto simp: bus_set_transient_path_def split: bus_value.splits if_splits)

lemma bus_set_transient_unsigned_noop:
  "bus_set_transient_unsigned u name p v f = (r, u') \<Longrightarrow> UNIT_WRITE_FLAGS_NOOP f \<Longrightarrow> u' = u"
  by (auto simp: bus_set_transient_unsigned_def split: bus_value.splits)

lemma bus_set_transient_usec_internal_noop:
  "bus_set_transient_usec_internal u name p z v f = (r, u') \<Longrightarrow> UNIT_WRITE_FLAGS_NOOP f \<Longrightarrow>
   u' = u"
  by (auto simp: bus_set_transient_usec_internal_def split: bus_value.splits)

lemma bus_set_transient_parse_noop:
  "BUS_DEFINE_SET_TRANSIENT_PARSE parse u name p v f = (r, u') \<Longrightarrow> UNIT_WRITE_FLAGS_NOOP f \<Longrightarrow>
   u' = u"
  by (auto simp: BUS_DEFINE_SET_TRANSIENT_PARSE_def split: bus_value.splits if_splits)

lemma conditions_loop_noop:
  "UNIT_WRITE_FLAGS_NOOP f \<Longrightarrow> snd (conditions_loop env u name l ic cs f emp) = u"
  by (induction cs arbitrary: emp) (auto simp: Let_def)

lemma conditions_loop_noopD:
  "conditions_loop env u name l ic cs f emp = (r, u') \<Longrightarrow> UNIT_WRITE_FLAGS_NOOP f \<Longrightarrow> u' = u"
  using conditions_loop_noop [of f env u name l ic cs emp] by simp

lemma bus_set_transient_conditions_noop:
  "bus_set_transient_conditions env u name l ic v f = (r, u') \<Longrightarrow> UNIT_WRITE_FLAGS_NOOP f \<Longrightarrow>
   u' = u"
  by (auto simp: bus_set_transient_conditions_def
        split: bus_value.splits prod.splits sum.splits dest: conditions_loop_noopD)

lemma set_transient_documentation_noop:
  "set_transient_documentation env u name v f = (r, u') \<Longrightarrow> UNIT_WRITE_FLAGS_NOOP f \<Longrightarrow> u' = u"
  by (auto simp: set_transient_documentation_def split: bus_value.splits option.splits)

lemma set_transient_slice_noop:
  "set_transient_slice env u name v f = (r, u') \<Longrightarrow> UNIT_WRITE_FLAGS_NOOP f \<Longrightarrow> u' = u"
  by (auto simp: set_transient_slice_def split: bus_value.splits sum.splits if_splits)

lemma requires_mounts_for_loop_noop:
  "UNIT_WRITE_FLAGS_NOOP f \<Longrightarrow> snd (requires_mounts_for_loop env u name l f) = u"
  by (induction l) auto

lemma set_transient_requires_mounts_for_noop:
  "set_transient_requires_mounts_for env u name v f = (r, u') \<Longrightarrow> UNIT_WRITE_FLAGS_NOOP f \<Longrightarrow>
   u' = u"
  using requires_mounts_for_loop_noop [of f env u name]
  by (auto simp: set_transient_requires_mounts_for_def split: bus_value.splits)
     (metis snd_conv)

lemma dependencies_loop_noop:
  "UNIT_WRITE_FLAGS_NOOP f \<Longrightarrow> snd (dependencies_loop env u name d l f) = u"
  by (induction l) auto

lemma set_transient_dependencies_noop:
  "set_transient_dependencies env u name d v f = (r, u') \<Longrightarrow> UNIT_WRITE_FLAGS_NOOP f \<Longrightarrow>
   u' = u"
  using dependencies_loop_noop [of f env u name d]
  by (auto simp: set_transient_dependencies_def split: bus_value.splits)
     (metis snd_conv)

lemma set_transient_add_ref_noop:
  "set_transient_add_ref u v f = (r, u') \<Longrightarrow> UNIT_WRITE_FLAGS_NOOP f \<Longrightarrow> u' = u"
  by (auto simp: set_transient_add_ref_def split: bus_value.splits)

lemmas setter_noop =
  bus_set_transient_bool_noop bus_set_transient_string_noop bus_set_transient_path_noop
  bus_set_transient_unsigned_noop bus_set_transient_usec_internal_noop
  bus_set_transient_parse_noop bus_set_transient_conditions_noop
  set_transient_documentation_noop set_transient_slice_noop
  set_transient_requires_mounts_for_noop set_transient_dependencies_noop
  set_transient_add_ref_noop

lemma transient_property_tail_noop:
  "bus_unit_set_transient_property_tail env u name v f = (r, u') \<Longrightarrow>
   UNIT_WRITE_FLAGS_NOOP f \<Longrightarrow> u' = u"
  unfolding bus_unit_set_transient_property_tail_def bus_set_transient_usec_def
    bus_set_transient_usec_fix_0_def bus_set_transient_collect_mode_def
    bus_set_transient_emergency_action_def bus_set_transient_job_mode_def Let_def
  by (auto split: if_splits prod.splits option.splits dest: setter_noop)

lemma transient_property_noop:
  "bus_unit_set_transient_property env u name v f = (r, u') \<Longrightarrow>
   UNIT_WRITE_FLAGS_NOOP f \<Longrightarrow> u' = u"
  unfolding bus_unit_set_transient_property_def bus_set_transient_usec_fix_0_def
    bus_set_transient_job_mode_def
  by (auto split: if_splits prod.splits dest: setter_noop transient_property_tail_noop)

lemma live_property_noop:
  "bus_unit_set_live_property env u name v f = (r, u') \<Longrightarrow>
   UNIT_WRITE_FLAGS_NOOP f \<Longrightarrow> u' = u"
  by (auto simp: bus_unit_set_live_property_def split: if_splits bus_value.splits)

lemma set_property_entry_noop:
  assumes "vtable_honours_noop env" and "UNIT_WRITE_FLAGS_NOOP f"
  shows "snd (set_property_entry env u name v f) = u"
proof (cases "bus_set_property (UNIT_VTABLE env u)")
  case None
  then show ?thesis by (simp add: set_property_entry_def)
next
  case (Some h)
  obtain r1 u1 where h: "h u name v f = (r1, u1)" by (cases "h u name v f")
  from assms Some have "snd (h u name v f) = u"
    unfolding vtable_honours_noop_def by blast
  with h have u1: "u1 = u" by simp
  obtain r2 u2 where t: "(if r1 = Inr 0 \<and> transient u1 \<and> load_state u1 = UNIT_STUB
                 then bus_unit_set_transient_property env u1 name v f else (r1, u1)) = (r2, u2)"
    by (cases "(if r1 = Inr 0 \<and> transient u1 \<and> load_state u1 = UNIT_STUB
                 then bus_unit_set_transient_property env u1 name v f else (r1, u1))")
  from t assms(2) u1 have u2: "u2 = u"
    by (auto split: if_splits dest: transient_property_noop)
  obtain r3 u3 where l: "(if r2 = Inr 0 then bus_unit_set_live_property env u2 name v f
                          else (r2, u2)) = (r3, u3)"
    by (cases "(if r2 = Inr 0 then bus_unit_set_live_property env u2 name v f else (r2, u2))")
  from l assms(2) u2 have u3: "u3 = u"
    by (auto split: if_splits dest: live_property_noop)
  show ?thesis
    using Some h t l u3 by (simp add: set_property_entry_def split: sum.splits)
qed

lemma masked_flags_noop: "UNIT_WRITE_FLAGS_NOOP (flags - {UNIT_RUNTIME, UNIT_PERSISTENT})"
  by (simp add: UNIT_WRITE_FLAGS_NOOP_def)

lemma first_pass:
  assumes "vtable_honours_noop env"
  shows "bus_unit_set_properties_loop env flags entries False n todo u =
           (case find (entry_invalid env flags u) todo of
              Some e \<Rightarrow>
                (fst (set_property_entry env u (fst e) (snd e)
                        (flags - {UNIT_RUNTIME, UNIT_PERSISTENT})), u)
            | None \<Rightarrow>
                if UNIT_WRITE_FLAGS_NOOP flags then (Inr n, u)
                else bus_unit_set_properties_loop env flags entries True n entries u)"
proof (induction todo arbitrary: n)
  case Nil
  show ?case by simp
next
  case (Cons e todo)
  obtain name v where e: "e = (name, v)" by (cases e)
  let ?f = "flags - {UNIT_RUNTIME, UNIT_PERSISTENT}"
  obtain r u' where s: "set_property_entry env u name v ?f = (r, u')"
    by (cases "set_property_entry env u name v ?f")
  from set_property_entry_noop [OF assms masked_flags_noop, of u name v flags] s
  have u': "u' = u" by simp
  show ?case
  proof (cases r)
    case (Inl err)
    with s u' e show ?thesis by (simp add: entry_invalid_def)
  next
    case (Inr k)
    with s u' e Cons.IH [of n] show ?thesis by (simp add: entry_invalid_def)
  qed
qed

text \<open>
  C1. Let the handler of the unit's type leave the unit as it is when the flags are a
  no-op, as the handlers of this file do. If a batch has an entry that is invalid for the
  unit, anywhere in the list, \<open>bus_unit_set_properties\<close> returns an error and the unit is
  what it was before the call: the first pass runs the handlers on every entry with the
  two target flags masked out, and the call ends with the error of the first invalid
  entry, before the second pass. What the first pass does outside the unit is not part of
  the statement: for \<open>Slice\<close> it has the manager prepare the slice unit.
\<close>

theorem validate_before_commit:
  assumes "vtable_honours_noop env"
      and "\<exists>e \<in> set entries. entry_invalid env flags u e"
  shows "\<exists>e err. find (entry_invalid env flags u) entries = Some e \<and>
           fst (set_property_entry env u (fst e) (snd e)
                  (flags - {UNIT_RUNTIME, UNIT_PERSISTENT})) = Inl err \<and>
           bus_unit_set_properties env u entries flags commit = (Inl err, u)"
proof -
  from assms(2) obtain e where f: "find (entry_invalid env flags u) entries = Some e"
    by (cases "find (entry_invalid env flags u) entries") (auto simp: find_None_iff)
  then have "entry_invalid env flags u e" by (auto simp: find_Some_iff)
  then obtain err where err: "fst (set_property_entry env u (fst e) (snd e)
                  (flags - {UNIT_RUNTIME, UNIT_PERSISTENT})) = Inl err"
    by (auto simp: entry_invalid_def isl_def)
  have "bus_unit_set_properties env u entries flags commit = (Inl err, u)"
    using f err by (simp add: bus_unit_set_properties_def first_pass [OF assms(1)])
  with f err show ?thesis by blast
qed

theorem validate_before_commit_witness:
  "vtable_honours_noop env0 \<and>
   \<not> entry_invalid env0 {UNIT_RUNTIME} (unit0\<lparr>transient := True, load_state := UNIT_STUB\<rparr>)
       (''Description'', VString ''x'') \<and>
   entry_invalid env0 {UNIT_RUNTIME} (unit0\<lparr>transient := True, load_state := UNIT_STUB\<rparr>)
       (''Conditions'', VConditions [(''Bogus'', False, False, ''/a'')]) \<and>
   bus_unit_set_properties env0 (unit0\<lparr>transient := True, load_state := UNIT_STUB\<rparr>)
       [(''Description'', VString ''x''),
        (''Conditions'', VConditions [(''Bogus'', False, False, ''/a'')])]
       {UNIT_RUNTIME} True =
     (Inl (BusError SD_BUS_ERROR_INVALID_ARGS ''Invalid condition type: %s'' [ArgStr ''Bogus'']),
      unit0\<lparr>transient := True, load_state := UNIT_STUB\<rparr>)"
proof -
  let ?u = "unit0\<lparr>transient := True, load_state := UNIT_STUB\<rparr>"
  let ?d = "(''Description'', VString ''x'')"
  let ?c = "(''Conditions'', VConditions [(''Bogus'', False, False, ''/a'')])"
  let ?f = "{UNIT_RUNTIME} - {UNIT_RUNTIME, UNIT_PERSISTENT}"
  have h: "vtable_honours_noop env0"
    by (simp add: vtable_honours_noop_def env0_def vtable0_def)
  have d: "set_property_entry env0 ?u (fst ?d) (snd ?d) ?f = (Inr 1, ?u)"
    by (simp add: set_property_entry_def env0_def vtable0_def
          bus_unit_set_transient_property_def bus_unit_set_transient_property_tail_def
          bus_unit_set_live_property_def UNIT_WRITE_FLAGS_NOOP_def)
  have c: "set_property_entry env0 ?u (fst ?c) (snd ?c) ?f =
             (Inl (BusError SD_BUS_ERROR_INVALID_ARGS ''Invalid condition type: %s''
                     [ArgStr ''Bogus'']), ?u)"
    by (simp add: set_property_entry_def env0_def vtable0_def
          bus_unit_set_transient_property_def bus_unit_set_transient_property_tail_def
          bus_set_transient_conditions_def UNIT_WRITE_FLAGS_NOOP_def)
  have nd: "\<not> entry_invalid env0 {UNIT_RUNTIME} ?u ?d"
    unfolding entry_invalid_def d by simp
  have ic: "entry_invalid env0 {UNIT_RUNTIME} ?u ?c"
    unfolding entry_invalid_def c by simp
  then have ex: "\<exists>e \<in> set [?d, ?c]. entry_invalid env0 {UNIT_RUNTIME} ?u e" by simp
  have fi: "find (entry_invalid env0 {UNIT_RUNTIME} ?u) [?d, ?c] = Some ?c"
    using nd ic by simp
  from validate_before_commit [OF h ex, of True] obtain e err where
    r: "find (entry_invalid env0 {UNIT_RUNTIME} ?u) [?d, ?c] = Some e"
       "fst (set_property_entry env0 ?u (fst e) (snd e) ?f) = Inl err"
       "bus_unit_set_properties env0 ?u [?d, ?c] {UNIT_RUNTIME} True = (Inl err, ?u)"
    by blast
  from r(1) fi have "e = ?c" by simp
  with r(2) c have "err = BusError SD_BUS_ERROR_INVALID_ARGS ''Invalid condition type: %s''
                     [ArgStr ''Bogus'']"
    by simp
  with r(3) h nd ic show ?thesis by (simp only: simp_thms)
qed

end
